theory Spec2Isabelle
  imports Complex_Main
begin

section \<open>Data model (types.ts)\<close>

text \<open>
  The interfaces of \<^verbatim>\<open>types.ts\<close> become records, the enums become datatypes.
  Field names carry a prefix, since several interfaces share the names \<^verbatim>\<open>id\<close>,
  \<^verbatim>\<open>title\<close> and \<^verbatim>\<open>dueDate\<close>. A JavaScript \<^verbatim>\<open>number\<close> is a \<^typ>\<open>real\<close>: the
  code only copies, compares and formats it. An optional field (\<^verbatim>\<open>dueDate?\<close>) is an
  \<^typ>\<open>'a option\<close>, \<^const>\<open>None\<close> being \<^verbatim>\<open>undefined\<close>. So is every field that the
  code copies from the arguments of a function call: the type assertion on the arguments
  is not checked at run time, and an argument that the call lacks reaches the record as
  \<^verbatim>\<open>undefined\<close>, whatever the interface declares. The string enum
  \<^verbatim>\<open>RecurrenceType\<close> stays a string for the same reason. The fields that the code itself
  writes (ids, the dates of the commit, \<^verbatim>\<open>completed\<close>, \<^verbatim>\<open>progress\<close>, \<^verbatim>\<open>status\<close>) keep
  their declared types.
\<close>

datatype MessageRole = User | AI

record GroundingSource =
  gs_uri :: string
  gs_title :: string

record Message =
  role :: MessageRole
  content :: string
  groundingSources :: "GroundingSource list option"

record CalendarEvent =
  ev_id :: string
  ev_title :: "string option"
  ev_date :: "string option"
  ev_time :: "string option"

record RecurringTask =
  task_id :: string
  task_title :: "string option"
  task_recurrence :: "string option"
  task_lastExecutionDate :: string
  task_dueDate :: "string option"
  task_completed :: bool

record PaymentDetail =
  pay_id :: string
  pay_biller :: "string option"
  pay_amount :: "real option"
  pay_dueDate :: "string option"
  pay_paymentDate :: string

datatype GoalStatus = NotStarted | InProgress | Completed | OnHold | Cancelled

record Goal =
  goal_id :: string
  goal_title :: "string option"
  goal_description :: "string option"
  goal_targetDate :: "string option"
  goal_progress :: real
  goal_status :: GoalStatus
  goal_creationDate :: string

section \<open>Application state (App.tsx)\<close>

text \<open>
  The union \<^verbatim>\<open>CalendarEvent | RecurringTask | PaymentDetail | Goal\<close> held by
  \<^verbatim>\<open>pendingActionDetails\<close>, and the string union of \<^verbatim>\<open>pendingActionType\<close>.
\<close>

datatype PendingDetails =
    EventDetails CalendarEvent
  | TaskDetails RecurringTask
  | PaymentDetails PaymentDetail
  | GoalDetails Goal

datatype ActionType = ActEvent | ActTask | ActPayment | ActGoal | ConfirmTaskCompletion

text \<open>
  A function call returned by the model: \<^verbatim>\<open>id\<close>, \<^verbatim>\<open>name\<close> and \<^verbatim>\<open>args\<close> are all
  optional in the client library. The arguments are a property bag, kept as an
  association list from property name to value.
\<close>

datatype jsval = JStr string | JNum real | JBool bool

type_synonym Args = "(string \<times> jsval) list"

record FunctionCall =
  fc_id :: "string option"
  fc_name :: "string option"
  fc_args :: "Args option"

text \<open>
  The hooks of \<^verbatim>\<open>App\<close> that the confirmation pipeline reads or writes, as one record.
  \<^verbatim>\<open>chatSession\<close> says whether \<^verbatim>\<open>chatSessionRef.current\<close> is set. The hooks for voice
  input, task editing, sorting and goal filtering take no part in the pipeline and are
  left out.
\<close>

record AppState =
  messages :: "Message list"
  input :: string
  loading :: bool
  error :: "string option"
  calendarEvents :: "CalendarEvent list"
  recurringTasks :: "RecurringTask list"
  paymentHistory :: "PaymentDetail list"
  goals :: "Goal list"
  showConfirmationDialog :: bool
  pendingActionDetails :: "PendingDetails option"
  pendingActionType :: "ActionType option"
  pendingFunctionCall :: "FunctionCall option"
  chatSession :: bool

text \<open>
  What the handlers take from the JavaScript runtime and from the formatting helpers that
  are built on \<^verbatim>\<open>Intl\<close>: \<^verbatim>\<open>Date.now()\<close> in milliseconds, the date part of
  \<^verbatim>\<open>new Date().toISOString()\<close>, \<^verbatim>\<open>formatEventDateTime\<close>, \<^verbatim>\<open>formatCurrency\<close>,
  \<^verbatim>\<open>new Date(s).getTime()\<close> (\<^const>\<open>None\<close> for \<^verbatim>\<open>NaN\<close>), and the effect of
  \<^verbatim>\<open>setHours(0, 0, 0, 0)\<close> on a time value, which depends on the local time zone.
\<close>

record Env =
  dateNow :: int
  todayISO :: string
  formatEventDateTime :: "string option \<Rightarrow> string option \<Rightarrow> string"
  formatCurrency :: "real option \<Rightarrow> string"
  parseDate :: "string \<Rightarrow> int option"
  startOfDay :: "int \<Rightarrow> int"

section \<open>JavaScript helpers\<close>

definition dq :: string where
  "dq = [CHR 0x22]"

definition sq :: string where
  "sq = [CHR 0x27]"

text \<open>Truthiness of a string that may be \<^verbatim>\<open>undefined\<close>: set and not empty.\<close>

fun truthy :: "string option \<Rightarrow> bool" where
  "truthy None = False"
| "truthy (Some s) = (s \<noteq> [])"

text \<open>A value that may be \<^verbatim>\<open>undefined\<close>, inside a template literal.\<close>

fun tpl :: "string option \<Rightarrow> string" where
  "tpl None = ''undefined''"
| "tpl (Some s) = s"

text \<open>
  \<^verbatim>\<open>Number.prototype.toString\<close> on an integer time value: decimal digits, with a
  leading minus sign below zero.
\<close>

definition digit_char :: "nat \<Rightarrow> char" where
  "digit_char d = char_of (48 + d)"

function show_nat :: "nat \<Rightarrow> string" where
  "show_nat n = (if n < 10 then [digit_char n] else show_nat (n div 10) @ [digit_char (n mod 10)])"
  by pat_completeness auto
termination
  by (relation "measure (\<lambda>n. n)") auto

declare show_nat.simps [simp del]

definition toString :: "int \<Rightarrow> string" where
  "toString i = (if i < 0 then CHR ''-'' # show_nat (nat (- i)) else show_nat (nat i))"

text \<open>
  \<^verbatim>\<open>!text.trim()\<close>: the text is empty once the white space at both ends is removed,
  that is, every character is white space. Characters are bytes here, so the white
  space of Latin-1 is what is recognised.
\<close>

definition is_space :: "char \<Rightarrow> bool" where
  "is_space c = (of_char c \<in> {9, 10, 11, 12, 13, 32, 160 :: nat})"

definition blank :: "string \<Rightarrow> bool" where
  "blank text = list_all is_space text"

text \<open>
  Property reads under a type assertion. \<^verbatim>\<open>fc.args as { title: string; ... }\<close> is not
  checked at run time: a property that the bag has is read as it is, a property that the
  bag lacks is \<^verbatim>\<open>undefined\<close>, and any other property of the bag is ignored. A property
  whose value is not of the asserted type lies outside the schema that the call was
  declared with; it is read as \<^verbatim>\<open>undefined\<close> as well.
\<close>

definition arg_opt_str :: "Args \<Rightarrow> string \<Rightarrow> string option" where
  "arg_opt_str args k = (case map_of args k of Some (JStr s) \<Rightarrow> Some s | _ \<Rightarrow> None)"

definition arg_opt_num :: "Args \<Rightarrow> string \<Rightarrow> real option" where
  "arg_opt_num args k = (case map_of args k of Some (JNum r) \<Rightarrow> Some r | _ \<Rightarrow> None)"

text \<open>
  \<^verbatim>\<open>pendingActionDetails as CalendarEvent\<close> and its siblings are not checked either: the
  property is read from whatever record the slot holds, and a record without it gives
  \<^verbatim>\<open>undefined\<close>. Every record has an \<^verbatim>\<open>id\<close>. \<^verbatim>\<open>completed\<close> is read as false from a
  record that is not a task, as its use in a condition does.
\<close>

fun pd_id :: "PendingDetails \<Rightarrow> string" where
  "pd_id (EventDetails e) = ev_id e"
| "pd_id (TaskDetails t) = task_id t"
| "pd_id (PaymentDetails p) = pay_id p"
| "pd_id (GoalDetails g) = goal_id g"

fun pd_title :: "PendingDetails \<Rightarrow> string option" where
  "pd_title (EventDetails e) = ev_title e"
| "pd_title (TaskDetails t) = task_title t"
| "pd_title (PaymentDetails p) = None"
| "pd_title (GoalDetails g) = goal_title g"

fun pd_date :: "PendingDetails \<Rightarrow> string option" where
  "pd_date (EventDetails e) = ev_date e"
| "pd_date _ = None"

fun pd_time :: "PendingDetails \<Rightarrow> string option" where
  "pd_time (EventDetails e) = ev_time e"
| "pd_time _ = None"

fun pd_recurrence :: "PendingDetails \<Rightarrow> string option" where
  "pd_recurrence (TaskDetails t) = task_recurrence t"
| "pd_recurrence _ = None"

fun pd_dueDate :: "PendingDetails \<Rightarrow> string option" where
  "pd_dueDate (TaskDetails t) = task_dueDate t"
| "pd_dueDate (PaymentDetails p) = pay_dueDate p"
| "pd_dueDate _ = None"

fun pd_completed :: "PendingDetails \<Rightarrow> bool" where
  "pd_completed (TaskDetails t) = task_completed t"
| "pd_completed _ = False"

fun pd_biller :: "PendingDetails \<Rightarrow> string option" where
  "pd_biller (PaymentDetails p) = pay_biller p"
| "pd_biller _ = None"

fun pd_amount :: "PendingDetails \<Rightarrow> real option" where
  "pd_amount (PaymentDetails p) = pay_amount p"
| "pd_amount _ = None"

fun pd_description :: "PendingDetails \<Rightarrow> string option" where
  "pd_description (GoalDetails g) = goal_description g"
| "pd_description _ = None"

fun pd_targetDate :: "PendingDetails \<Rightarrow> string option" where
  "pd_targetDate (GoalDetails g) = goal_targetDate g"
| "pd_targetDate _ = None"

text \<open>\<^verbatim>\<open>a || b\<close> on strings that may be \<^verbatim>\<open>undefined\<close>.\<close>

definition or_else :: "string option \<Rightarrow> string \<Rightarrow> string" where
  "or_else a b = (if truthy a then the a else b)"

definition ai_message :: "string \<Rightarrow> Message" where
  "ai_message c = \<lparr>role = AI, content = c, groundingSources = None\<rparr>"

section \<open>The model's answers\<close>

text \<open>
  The two calls to the model are the only suspending operations. A handler that
  awaits one is modelled in two parts: what it does up to the \<^verbatim>\<open>await\<close>, and what it
  does once the answer is there. Between the two parts the pending promise holds what
  the handler captured, and other events may run.
\<close>

record Chunk =
  web_uri :: "string option"
  maps_uri :: "string option"
  web_title :: "string option"
  maps_title :: "string option"

text \<open>
  \<^verbatim>\<open>groundingChunks\<close> stands for the optional chain
  \<^verbatim>\<open>response.candidates?.[0]?.groundingMetadata?.groundingChunks\<close>.
\<close>

record GenerateContentResponse =
  functionCalls :: "FunctionCall list option"
  resp_text :: "string option"
  groundingChunks :: "Chunk list option"

text \<open>
  \<^verbatim>\<open>generateContent\<close> returns a response or throws; \<^verbatim>\<open>Threw m\<close> carries
  \<^verbatim>\<open>e.message\<close>.
\<close>

datatype OracleResult = Threw "string option" | Responded GenerateContentResponse

text \<open>
  The answer to a \<^verbatim>\<open>functionResponse\<close> message: its \<^verbatim>\<open>text\<close>, or a rejected promise.
\<close>

datatype OracleReply = ReplyText "string option" | ReplyError

section \<open>sendMessage\<close>

text \<open>The \<^verbatim>\<open>catch\<close> block of \<^verbatim>\<open>sendMessage\<close>.\<close>

definition sendMessage_catch :: "string option \<Rightarrow> AppState \<Rightarrow> AppState" where
  "sendMessage_catch m s =
     s\<lparr>error := Some (or_else m ''Failed to get a response from AI.''),
       messages := messages s @
         [ai_message (''I'' @ sq @ ''m sorry, I encountered an error: '' @ tpl m @ ''.'')],
       loading := False\<rparr>"

definition set_pending :: "PendingDetails \<Rightarrow> ActionType \<Rightarrow> FunctionCall \<Rightarrow> AppState \<Rightarrow> AppState" where
  "set_pending d ty fc s =
     s\<lparr>pendingActionDetails := Some d,
       pendingActionType := Some ty,
       pendingFunctionCall := Some fc,
       showConfirmationDialog := True\<rparr>"

definition grounding_source :: "Chunk \<Rightarrow> GroundingSource" where
  "grounding_source c =
     \<lparr>gs_uri = or_else (web_uri c) (or_else (maps_uri c) ''#''),
      gs_title = or_else (web_title c) (or_else (maps_title c) ''Source'')\<rparr>"

text \<open>
  The branch on \<^verbatim>\<open>fc.name\<close>. Destructuring \<^verbatim>\<open>fc.args\<close> when it is \<^verbatim>\<open>undefined\<close>
  throws a \<^verbatim>\<open>TypeError\<close> inside the \<^verbatim>\<open>try\<close> block; \<open>te\<close> is the message the engine
  gives it. In the four known branches \<^verbatim>\<open>loading\<close> is left set.
\<close>

definition on_function_call :: "string \<Rightarrow> FunctionCall \<Rightarrow> AppState \<Rightarrow> AppState" where
  "on_function_call te fc s =
     (if fc_name fc = Some ''createCalendarEvent'' then
        (case fc_args fc of
           None \<Rightarrow> sendMessage_catch (Some te) s
         | Some args \<Rightarrow>
             set_pending (EventDetails
               \<lparr>ev_id = [], ev_title = arg_opt_str args ''title'',
                ev_date = arg_opt_str args ''date'', ev_time = arg_opt_str args ''time''\<rparr>)
               ActEvent fc s)
      else if fc_name fc = Some ''createRecurringTask'' then
        (case fc_args fc of
           None \<Rightarrow> sendMessage_catch (Some te) s
         | Some args \<Rightarrow>
             set_pending (TaskDetails
               \<lparr>task_id = [], task_title = arg_opt_str args ''title'',
                task_recurrence = arg_opt_str args ''recurrence'',
                task_lastExecutionDate = [],
                task_dueDate = arg_opt_str args ''dueDate'',
                task_completed = False\<rparr>)
               ActTask fc s)
      else if fc_name fc = Some ''payBill'' then
        (case fc_args fc of
           None \<Rightarrow> sendMessage_catch (Some te) s
         | Some args \<Rightarrow>
             set_pending (PaymentDetails
               \<lparr>pay_id = [], pay_biller = arg_opt_str args ''biller'',
                pay_amount = arg_opt_num args ''amount'',
                pay_dueDate = arg_opt_str args ''dueDate'',
                pay_paymentDate = []\<rparr>)
               ActPayment fc s)
      else if fc_name fc = Some ''createGoal'' then
        (case fc_args fc of
           None \<Rightarrow> sendMessage_catch (Some te) s
         | Some args \<Rightarrow>
             set_pending (GoalDetails
               \<lparr>goal_id = [], goal_title = arg_opt_str args ''title'',
                goal_description = arg_opt_str args ''description'',
                goal_targetDate = arg_opt_str args ''targetDate'',
                goal_progress = 0,
                goal_status = NotStarted,
                goal_creationDate = []\<rparr>)
               ActGoal fc s)
      else
        s\<lparr>messages := messages s @
             [ai_message (''I received a request to perform '' @ dq @ tpl (fc_name fc) @ dq @
                '', but I'' @ sq @ ''m not configured to directly execute it without confirmation yet.'')],
          loading := False\<rparr>)"

definition on_text_response :: "GenerateContentResponse \<Rightarrow> AppState \<Rightarrow> AppState" where
  "on_text_response r s =
     s\<lparr>messages := messages s @
          [\<lparr>role = AI,
            content = or_else (resp_text r) (''I couldn'' @ sq @ ''t generate a text response.''),
            groundingSources =
              Some (case groundingChunks r of None \<Rightarrow> [] | Some cs \<Rightarrow> map grounding_source cs)\<rparr>],
       loading := False\<rparr>"

text \<open>
  \<^verbatim>\<open>sendMessage\<close> up to \<^verbatim>\<open>await generateContent\<close>: \<^const>\<open>None\<close> when it returns at its
  guard, otherwise the state after its four setters.
\<close>

definition sendMessage_begin :: "string \<Rightarrow> AppState \<Rightarrow> AppState option" where
  "sendMessage_begin txt s =
     (if blank txt \<or> loading s then None
      else Some (s\<lparr>error := None,
                   messages := messages s @ [\<lparr>role = User, content = txt, groundingSources = None\<rparr>],
                   input := [],
                   loading := True\<rparr>))"

text \<open>
  \<^verbatim>\<open>sendMessage\<close> from the answer of \<^verbatim>\<open>generateContent\<close> on. It only calls setters, so
  it acts on the state that is current when the answer arrives.
\<close>

definition sendMessage_resume :: "string \<Rightarrow> OracleResult \<Rightarrow> AppState \<Rightarrow> AppState" where
  "sendMessage_resume te res s =
     (case res of
        Threw m \<Rightarrow> sendMessage_catch m s
      | Responded r \<Rightarrow>
          (case functionCalls r of
             Some (fc # _) \<Rightarrow> on_function_call te fc s
           | _ \<Rightarrow> on_text_response r s))"

text \<open>The whole handler when no other event runs while it awaits.\<close>

definition sendMessage :: "string \<Rightarrow> string \<Rightarrow> OracleResult \<Rightarrow> AppState \<Rightarrow> AppState" where
  "sendMessage te txt res s =
     (case sendMessage_begin txt s of
        None \<Rightarrow> s
      | Some s1 \<Rightarrow> sendMessage_resume te res s1)"

section \<open>handleToggleTaskCompletion\<close>

definition handleToggleTaskCompletion :: "string \<Rightarrow> bool \<Rightarrow> AppState \<Rightarrow> AppState" where
  "handleToggleTaskCompletion taskId currentCompletedStatus s =
     (case find (\<lambda>task. task_id task = taskId) (recurringTasks s) of
        None \<Rightarrow> s
      | Some taskToToggle \<Rightarrow>
          s\<lparr>pendingActionDetails :=
              Some (TaskDetails (taskToToggle\<lparr>task_completed := \<not> currentCompletedStatus\<rparr>)),
            pendingActionType := Some ConfirmTaskCompletion,
            pendingFunctionCall :=
              Some \<lparr>fc_id = Some (''toggle-'' @ taskId),
                    fc_name = Some ''toggleTaskCompletion'',
                    fc_args = Some [(''taskId'', JStr taskId),
                                    (''newStatus'', JBool (\<not> currentCompletedStatus))]\<rparr>,
            showConfirmationDialog := True\<rparr>)"

section \<open>handleConfirm\<close>

text \<open>
  The five branches on \<^verbatim>\<open>pendingActionType\<close>. Each returns the state after its setters,
  the result message and the flag \<^verbatim>\<open>aiResponseNeeded\<close>.
\<close>

fun commit :: "Env \<Rightarrow> ActionType \<Rightarrow> PendingDetails \<Rightarrow> AppState \<Rightarrow> AppState \<times> string \<times> bool" where
  "commit env ActEvent d s =
     (let newEvent = \<lparr>ev_id = toString (dateNow env), ev_title = pd_title d,
                       ev_date = pd_date d, ev_time = pd_time d\<rparr>
      in (s\<lparr>calendarEvents := calendarEvents s @ [newEvent]\<rparr>,
          ''Calendar event '' @ dq @ tpl (pd_title d) @ dq @ '' for '' @
            formatEventDateTime env (pd_date d) (pd_time d) @ '' successfully created.'',
          True))"
| "commit env ActTask d s =
     (let newTask = \<lparr>task_id = toString (dateNow env), task_title = pd_title d,
                      task_recurrence = pd_recurrence d,
                      task_lastExecutionDate = todayISO env,
                      task_dueDate = pd_dueDate d,
                      task_completed = False\<rparr>
      in (s\<lparr>recurringTasks := recurringTasks s @ [newTask]\<rparr>,
          ''Recurring task '' @ dq @ tpl (pd_title d) @ dq @ '' ('' @ tpl (pd_recurrence d) @ '')'' @
            (if truthy (pd_dueDate d) then '' with due date '' @ tpl (pd_dueDate d) else []) @
            '' successfully created.'',
          True))"
| "commit env ActPayment d s =
     (let newPayment = \<lparr>pay_id = toString (dateNow env), pay_biller = pd_biller d,
                         pay_amount = pd_amount d,
                         pay_dueDate = pd_dueDate d,
                         pay_paymentDate = todayISO env\<rparr>
      in (s\<lparr>paymentHistory := paymentHistory s @ [newPayment]\<rparr>,
          ''Payment of '' @ formatCurrency env (pd_amount d) @ '' to '' @ tpl (pd_biller d) @
            '' (due '' @ tpl (pd_dueDate d) @ '') has been initiated.'',
          True))"
| "commit env ActGoal d s =
     (let newGoal = \<lparr>goal_id = toString (dateNow env), goal_title = pd_title d,
                      goal_description = pd_description d,
                      goal_targetDate = pd_targetDate d,
                      goal_progress = 0,
                      goal_status = NotStarted,
                      goal_creationDate = todayISO env\<rparr>
      in (s\<lparr>goals := goals s @ [newGoal]\<rparr>,
          ''Goal '' @ dq @ tpl (pd_title d) @ dq @ '' targeting '' @ tpl (pd_targetDate d) @
            '' successfully created.'',
          True))"
| "commit env ConfirmTaskCompletion d s =
     (let resultMessage =
            ''Task '' @ dq @ tpl (pd_title d) @ dq @ '' marked as '' @
              (if pd_completed d then ''completed'' else ''not completed'') @ ''.''
      in (s\<lparr>recurringTasks :=
               map (\<lambda>task. if task_id task = pd_id d
                             then task\<lparr>task_completed := pd_completed d\<rparr> else task)
                   (recurringTasks s),
             messages := messages s @ [ai_message resultMessage]\<rparr>,
          resultMessage,
          False))"

text \<open>The \<^verbatim>\<open>try\<close>/\<^verbatim>\<open>catch\<close> around the follow-up call of \<^verbatim>\<open>handleConfirm\<close>.\<close>

fun confirm_follow_up :: "OracleReply \<Rightarrow> string \<Rightarrow> AppState \<Rightarrow> AppState" where
  "confirm_follow_up (ReplyText t) resultMessage s =
     s\<lparr>messages := messages s @ [ai_message (or_else t resultMessage)]\<rparr>"
| "confirm_follow_up ReplyError resultMessage s =
     s\<lparr>error := Some ''Failed to communicate action result to AI.'',
       messages := messages s @
         [ai_message (resultMessage @ '' (Error: Failed to get AI'' @ sq @ ''s follow-up message)'')]\<rparr>"

text \<open>The four setters at the end of \<^verbatim>\<open>handleConfirm\<close>.\<close>

definition clear_pending :: "AppState \<Rightarrow> AppState" where
  "clear_pending s =
     s\<lparr>pendingActionDetails := None,
       pendingFunctionCall := None,
       pendingActionType := None,
       loading := False\<rparr>"

text \<open>
  \<^verbatim>\<open>handleConfirm\<close> up to its \<^verbatim>\<open>await\<close>. When it sends the function response it stops
  there, with the dialog hidden and the pending hooks still set, and the promise keeps
  the result message; the second component is that message. Otherwise it runs to its
  end and the second component is \<^const>\<open>None\<close>.
\<close>

definition handleConfirm_begin :: "Env \<Rightarrow> AppState \<Rightarrow> AppState \<times> string option" where
  "handleConfirm_begin env s =
     (case (pendingActionDetails s, pendingActionType s) of
        (Some d, Some ty) \<Rightarrow>
          (case commit env ty d (s\<lparr>showConfirmationDialog := False, loading := True\<rparr>) of
             (s1, resultMessage, aiResponseNeeded) \<Rightarrow>
               if aiResponseNeeded \<and> pendingFunctionCall s \<noteq> None \<and> chatSession s
               then (s1, Some resultMessage)
               else (clear_pending s1, None))
      | _ \<Rightarrow> (s, None))"

text \<open>
  \<^verbatim>\<open>handleConfirm\<close> from the answer to the function response on, acting on the state
  that is current then.
\<close>

definition handleConfirm_resume :: "OracleReply \<Rightarrow> string \<Rightarrow> AppState \<Rightarrow> AppState" where
  "handleConfirm_resume reply resultMessage s =
     clear_pending (confirm_follow_up reply resultMessage s)"

text \<open>The whole handler when no other event runs while it awaits.\<close>

definition handleConfirm :: "Env \<Rightarrow> OracleReply \<Rightarrow> AppState \<Rightarrow> AppState" where
  "handleConfirm env reply s =
     (case handleConfirm_begin env s of
        (s1, None) \<Rightarrow> s1
      | (s1, Some resultMessage) \<Rightarrow> handleConfirm_resume reply resultMessage s1)"

section \<open>handleCancel\<close>

text \<open>
  \<^verbatim>\<open>handleCancel\<close> up to the promise of the cancellation notice; the flag says whether
  the notice was sent. Without a notice the handler appends its own message at once.
\<close>

definition handleCancel_begin :: "AppState \<Rightarrow> AppState \<times> bool" where
  "handleCancel_begin s =
     (let s1 = s\<lparr>showConfirmationDialog := False,
                 pendingActionDetails := None,
                 pendingFunctionCall := None,
                 pendingActionType := None,
                 loading := True\<rparr>
      in if pendingActionType s \<noteq> Some ConfirmTaskCompletion \<and> chatSession s
            \<and> pendingFunctionCall s \<noteq> None
         then (s1, True)
         else (s1\<lparr>messages := messages s1 @ [ai_message ''Action cancelled.''],
                  loading := False\<rparr>, False))"

text \<open>The \<^verbatim>\<open>then\<close>, \<^verbatim>\<open>catch\<close> and \<^verbatim>\<open>finally\<close> callbacks of that promise.\<close>

definition handleCancel_resume :: "OracleReply \<Rightarrow> AppState \<Rightarrow> AppState" where
  "handleCancel_resume reply s =
     (case reply of
        ReplyText t \<Rightarrow>
          s\<lparr>messages := messages s @ [ai_message (or_else t ''Action cancelled.'')],
            loading := False\<rparr>
      | ReplyError \<Rightarrow>
          s\<lparr>messages := messages s @
               [ai_message (''Action cancelled (Error: Failed to get AI'' @ sq @
                  ''s follow-up message)'')],
            loading := False\<rparr>)"

text \<open>The whole handler when no other event runs before the promise settles.\<close>

definition handleCancel :: "OracleReply \<Rightarrow> AppState \<Rightarrow> AppState" where
  "handleCancel reply s =
     (case handleCancel_begin s of
        (s1, True) \<Rightarrow> handleCancel_resume reply s1
      | (s1, False) \<Rightarrow> s1)"

section \<open>Reminder scan (utils/taskUtils.ts)\<close>

text \<open>
  The callback of \<^verbatim>\<open>tasks.forEach\<close> in \<^verbatim>\<open>getUpcomingDueDates\<close>: from the array
  \<^verbatim>\<open>upcomingTasks\<close> before the task to the array after it. \<open>today\<close> is the time value
  of the start of the current day. An unparsable date has the time value \<^verbatim>\<open>NaN\<close>, on
  which every comparison is false. \<^verbatim>\<open>Math.ceil\<close> of the quotient is the ceiling of the
  exact quotient.
\<close>

definition scan_task :: "Env \<Rightarrow> real \<Rightarrow> int \<Rightarrow> RecurringTask list \<Rightarrow> RecurringTask \<Rightarrow> RecurringTask list" where
  "scan_task env daysThreshold today upcomingTasks task =
     (if task_completed task then upcomingTasks
      else if truthy (task_dueDate task) then
        (case map_option (startOfDay env) (parseDate env (tpl (task_dueDate task))) of
           None \<Rightarrow> upcomingTasks
         | Some dueDate \<Rightarrow>
             (let timeDiff = dueDate - today;
                  daysDiff = \<lceil>real_of_int timeDiff / (1000 * 60 * 60 * 24)\<rceil>
              in if daysDiff \<ge> 0 \<and> real_of_int daysDiff \<le> daysThreshold
                 then upcomingTasks @ [task]
                 else if daysDiff < 0 then
                   (if task_lastExecutionDate task = [] then upcomingTasks @ [task]
                    else case parseDate env (task_lastExecutionDate task) of
                           None \<Rightarrow> upcomingTasks
                         | Some lastExecutionDate \<Rightarrow>
                             if lastExecutionDate < dueDate then upcomingTasks @ [task]
                             else upcomingTasks)
                 else upcomingTasks))
      else upcomingTasks)"

definition getUpcomingDueDates :: "Env \<Rightarrow> RecurringTask list \<Rightarrow> real \<Rightarrow> RecurringTask list" where
  "getUpcomingDueDates env tasks daysThreshold =
     foldl (scan_task env daysThreshold (startOfDay env (dateNow env))) [] tasks"

section \<open>Reminder posting (App.tsx)\<close>

definition reminder_text :: "RecurringTask \<Rightarrow> string" where
  "reminder_text task =
     ''Reminder: Your recurring task '' @ dq @ tpl (task_title task) @ dq @ '' is due on '' @
     tpl (task_dueDate task) @ ''!''"

text \<open>
  \<^verbatim>\<open>newReminders\<close> as \<^verbatim>\<open>checkAndPostReminders\<close> computes it; the effect does nothing
  on an empty task list, and the function nothing on an empty scan.
\<close>

definition newReminders :: "Env \<Rightarrow> AppState \<Rightarrow> string list" where
  "newReminders env s =
     (if recurringTasks s = [] then []
      else
        let upcoming = getUpcomingDueDates env (recurringTasks s) 7
        in if length upcoming > 0 then
             filter (\<lambda>msg. \<not> list_ex (\<lambda>m. content m = msg) (messages s))
               (map reminder_text upcoming)
           else [])"

definition checkAndPostReminders :: "Env \<Rightarrow> AppState \<Rightarrow> AppState" where
  "checkAndPostReminders env s =
     (if length (newReminders env s) > 0
      then s\<lparr>messages := messages s @ map ai_message (newReminders env s)\<rparr>
      else s)"

section \<open>Loading the recurring tasks (utils/taskUtils.ts)\<close>

text \<open>
  A task as \<^verbatim>\<open>JSON.parse\<close> returns it: \<^verbatim>\<open>completed\<close> may be missing or \<^verbatim>\<open>null\<close>
  in older entries.
\<close>

record StoredTask =
  st_id :: string
  st_title :: "string option"
  st_recurrence :: "string option"
  st_lastExecutionDate :: string
  st_dueDate :: "string option"
  st_completed :: "bool option"

text \<open>What \<^verbatim>\<open>localStorage.getItem\<close> does: it throws, returns \<^verbatim>\<open>null\<close> or returns a string.\<close>

datatype StorageItem = GetItemThrows | NoItem | Item string

text \<open>\<^verbatim>\<open>{ ...task, completed: task.completed ?? false }\<close>\<close>

definition fill_completed :: "StoredTask \<Rightarrow> RecurringTask" where
  "fill_completed task =
     \<lparr>task_id = st_id task, task_title = st_title task,
      task_recurrence = st_recurrence task,
      task_lastExecutionDate = st_lastExecutionDate task,
      task_dueDate = st_dueDate task,
      task_completed = (case st_completed task of None \<Rightarrow> False | Some b \<Rightarrow> b)\<rparr>"

text \<open>
  \<open>parse\<close> is \<^verbatim>\<open>JSON.parse\<close> at the type the code asserts; it is \<^const>\<open>None\<close> when
  \<^verbatim>\<open>JSON.parse\<close> throws or returns a value on which \<^verbatim>\<open>.map\<close> throws. Every
  exception ends in the \<^verbatim>\<open>catch\<close> block, which returns the empty array.
\<close>

fun loadRecurringTasksFromLocalStorage :: "(string \<Rightarrow> StoredTask list option) \<Rightarrow> StorageItem \<Rightarrow> RecurringTask list" where
  "loadRecurringTasksFromLocalStorage parse GetItemThrows = []"
| "loadRecurringTasksFromLocalStorage parse NoItem = []"
| "loadRecurringTasksFromLocalStorage parse (Item serializedTasks) =
     (case parse serializedTasks of
        None \<Rightarrow> []
      | Some parsedTasks \<Rightarrow> map fill_completed parsedTasks)"

section \<open>Events of the confirmation pipeline\<close>

text \<open>
  The state after the mount effect: the welcome message, the loaded collections, no
  pending action. \<open>cs\<close> says whether the chat session could be created.
\<close>

definition initialState :: "bool \<Rightarrow> CalendarEvent list \<Rightarrow> RecurringTask list \<Rightarrow> PaymentDetail list \<Rightarrow> Goal list \<Rightarrow> AppState" where
  "initialState cs es ts ps gs =
     \<lparr>messages = [ai_message (''Hello! I'' @ sq @ ''m Ava, your personal AI Concierge. How can I assist you with your administrative tasks today?'')],
      input = [],
      loading = False,
      error = (if cs then None
               else Some ''Failed to initialize AI. Please check your API Key configuration.''),
      calendarEvents = es,
      recurringTasks = ts,
      paymentHistory = ps,
      goals = gs,
      showConfirmationDialog = False,
      pendingActionDetails = None,
      pendingActionType = None,
      pendingFunctionCall = None,
      chatSession = cs\<rparr>"

text \<open>
  A call to the model that has not been answered yet, with what its handler captured:
  \<^verbatim>\<open>sendMessage\<close> awaiting \<^verbatim>\<open>generateContent\<close>, \<^verbatim>\<open>handleConfirm\<close> awaiting the answer to
  its function response (with the result message), \<^verbatim>\<open>handleCancel\<close> with the promise of
  its cancellation notice.
\<close>

datatype Call = GenerateCall | ConfirmCall string | CancelCall

text \<open>The application state together with the calls in flight.\<close>

record Session =
  app :: AppState
  calls :: "Call list"

definition initialSession :: "bool \<Rightarrow> CalendarEvent list \<Rightarrow> RecurringTask list \<Rightarrow> PaymentDetail list \<Rightarrow> Goal list \<Rightarrow> Session" where
  "initialSession cs es ts ps gs = \<lparr>app = initialState cs es ts ps gs, calls = []\<rparr>"

text \<open>
  The events: the user sends a message, clicks a task's checkbox, clicks Confirm or
  Cancel; the model answers the \<open>n\<close>-th call in flight. Each event runs to completion
  before the next one. The handlers are taken as they are written: none of them asks
  whether the dialog is shown.
\<close>

datatype Event =
    SendMessage string
  | ToggleRequest string bool
  | ConfirmClick Env
  | CancelClick
  | GenerateAnswer nat string OracleResult
  | FollowUpAnswer nat OracleReply

definition drop_call :: "nat \<Rightarrow> Call list \<Rightarrow> Call list" where
  "drop_call n cs = take n cs @ drop (Suc n) cs"

fun step :: "Event \<Rightarrow> Session \<Rightarrow> Session" where
  "step (SendMessage txt) ss =
     (case sendMessage_begin txt (app ss) of
        None \<Rightarrow> ss
      | Some s1 \<Rightarrow> \<lparr>app = s1, calls = calls ss @ [GenerateCall]\<rparr>)"
| "step (ToggleRequest taskId cur) ss =
     ss\<lparr>app := handleToggleTaskCompletion taskId cur (app ss)\<rparr>"
| "step (ConfirmClick env) ss =
     (case handleConfirm_begin env (app ss) of
        (s1, None) \<Rightarrow> ss\<lparr>app := s1\<rparr>
      | (s1, Some resultMessage) \<Rightarrow> \<lparr>app = s1, calls = calls ss @ [ConfirmCall resultMessage]\<rparr>)"
| "step CancelClick ss =
     (case handleCancel_begin (app ss) of
        (s1, True) \<Rightarrow> \<lparr>app = s1, calls = calls ss @ [CancelCall]\<rparr>
      | (s1, False) \<Rightarrow> ss\<lparr>app := s1\<rparr>)"
| "step (GenerateAnswer n te res) ss =
     (if n < length (calls ss) then
        (case calls ss ! n of
           GenerateCall \<Rightarrow>
             \<lparr>app = sendMessage_resume te res (app ss), calls = drop_call n (calls ss)\<rparr>
         | _ \<Rightarrow> ss)
      else ss)"
| "step (FollowUpAnswer n reply) ss =
     (if n < length (calls ss) then
        (case calls ss ! n of
           ConfirmCall resultMessage \<Rightarrow>
             \<lparr>app = handleConfirm_resume reply resultMessage (app ss),
              calls = drop_call n (calls ss)\<rparr>
         | CancelCall \<Rightarrow>
             \<lparr>app = handleCancel_resume reply (app ss), calls = drop_call n (calls ss)\<rparr>
         | GenerateCall \<Rightarrow> ss)
      else ss)"

fun run :: "Event list \<Rightarrow> Session \<Rightarrow> Session" where
  "run [] ss = ss"
| "run (e # es) ss = run es (step e ss)"

text \<open>
  The payload and the tag of a pending action agree: the tag names the kind of record
  that the payload is.
\<close>

fun kind_matches :: "ActionType \<Rightarrow> PendingDetails \<Rightarrow> bool" where
  "kind_matches ActEvent (EventDetails _) = True"
| "kind_matches ActTask (TaskDetails _) = True"
| "kind_matches ActPayment (PaymentDetails _) = True"
| "kind_matches ActGoal (GoalDetails _) = True"
| "kind_matches ConfirmTaskCompletion (TaskDetails _) = True"
| "kind_matches _ _ = False"

text \<open>
  The three hooks of the pending action describe one slot: all clear, or all set with a
  payload of the kind the tag names.
\<close>

definition slot_coherent :: "AppState \<Rightarrow> bool" where
  "slot_coherent s =
     (case (pendingActionDetails s, pendingActionType s, pendingFunctionCall s) of
        (None, None, None) \<Rightarrow> True
      | (Some d, Some ty, Some fc) \<Rightarrow> kind_matches ty d
      | _ \<Rightarrow> False)"

section \<open>Dates of the JavaScript runtime\<close>

text \<open>Reading a decimal rendering back, the inverse of \<^const>\<open>toString\<close>.\<close>

definition read_nat :: "string \<Rightarrow> nat" where
  "read_nat cs = foldl (\<lambda>a c. 10 * a + (of_char c - 48)) 0 cs"

fun read_int :: "string \<Rightarrow> int" where
  "read_int [] = 0"
| "read_int (c # cs) = (if c = CHR ''-'' then - int (read_nat cs) else int (read_nat (c # cs)))"

definition is_digit :: "char \<Rightarrow> bool" where
  "is_digit c = (48 \<le> (of_char c :: nat) \<and> (of_char c :: nat) \<le> 57)"

definition digits :: "string \<Rightarrow> nat option" where
  "digits cs = (if list_all is_digit cs then Some (read_nat cs) else None)"

definition leap_year :: "nat \<Rightarrow> bool" where
  "leap_year y = (y mod 4 = 0 \<and> (y mod 100 \<noteq> 0 \<or> y mod 400 = 0))"

definition days_in_month :: "nat \<Rightarrow> nat \<Rightarrow> nat" where
  "days_in_month y m =
     (if m = 2 then (if leap_year y then 29 else 28)
      else if m = 4 \<or> m = 6 \<or> m = 9 \<or> m = 11 then 30 else 31)"

text \<open>
  The number of the day \<open>y\<close>-\<open>m\<close>-\<open>d\<close> of the Gregorian calendar, counted from
  1970-01-01 as day 0.
\<close>

definition days_from_civil :: "int \<Rightarrow> int \<Rightarrow> int \<Rightarrow> int" where
  "days_from_civil y m d =
     (let y1 = (if m \<le> 2 then y - 1 else y);
          era = y1 div 400;
          yoe = y1 - era * 400;
          doy = (153 * (if m > 2 then m - 3 else m + 9) + 2) div 5 + d - 1;
          doe = yoe * 365 + yoe div 4 - yoe div 100 + doy
      in era * 146097 + doe - 719468)"

text \<open>
  The day that a date string of the form \<^verbatim>\<open>YYYY-MM-DD\<close> names, the form that
  \<^verbatim>\<open>types.ts\<close> gives for every date field; \<^const>\<open>None\<close> for any other string.
\<close>

fun day_number :: "string \<Rightarrow> int option" where
  "day_number [y1, y2, y3, y4, h1, m1, m2, h2, d1, d2] =
     (if h1 = CHR ''-'' \<and> h2 = CHR ''-'' then
        (case (digits [y1, y2, y3, y4], digits [m1, m2], digits [d1, d2]) of
           (Some y, Some m, Some d) \<Rightarrow>
             if 1 \<le> m \<and> m \<le> 12 \<and> 1 \<le> d \<and> d \<le> days_in_month y m
             then Some (days_from_civil (int y) (int m) (int d)) else None
         | _ \<Rightarrow> None)
      else None)"
| "day_number _ = None"

text \<open>
  \<^verbatim>\<open>new Date(s).getTime()\<close> on such a string: the date-only form is read as midnight
  UTC of that day.
\<close>

definition utc_midnight :: "string \<Rightarrow> int option" where
  "utc_midnight s = map_option (\<lambda>d. d * 86400000) (day_number s)"

text \<open>
  \<^verbatim>\<open>setHours(0, 0, 0, 0)\<close> in a zone whose local time is UTC plus \<open>off\<close> milliseconds: the
  midnight that began the local day of the time value.
\<close>

definition local_midnight :: "int \<Rightarrow> int \<Rightarrow> int" where
  "local_midnight off t = ((t + off) div 86400000) * 86400000 - off"

text \<open>The number of the local calendar day at the time value \<open>now\<close>.\<close>

definition local_today :: "int \<Rightarrow> int \<Rightarrow> int" where
  "local_today off now = (now + off) div 86400000"

text \<open>
  A runtime in the zone \<open>off\<close>: its date parser reads date strings as above (other
  strings are left open), and its start of day is the local midnight.
\<close>

definition js_dates :: "int \<Rightarrow> Env \<Rightarrow> bool" where
  "js_dates off env =
     ((\<forall>s d. day_number s = Some d \<longrightarrow> parseDate env s = Some (d * 86400000)) \<and>
      (\<forall>t. startOfDay env t = local_midnight off t))"

section \<open>Auxiliary notions for the properties\<close>

text \<open>
  The reminder rule in the words of the specification, on calendar days. \<open>today\<close> is the
  number of the current day. The days until the due date are the difference of the two
  day numbers; they are undefined when the due date is missing, empty or not a date.
\<close>

definition calendar_days_until_due :: "int \<Rightarrow> RecurringTask \<Rightarrow> int option" where
  "calendar_days_until_due today task =
     (if truthy (task_dueDate task)
      then map_option (\<lambda>d. d - today) (day_number (tpl (task_dueDate task)))
      else None)"

definition last_execution_absent :: "RecurringTask \<Rightarrow> bool" where
  "last_execution_absent task = (task_lastExecutionDate task = [])"

definition executed_before_due :: "RecurringTask \<Rightarrow> bool" where
  "executed_before_due task =
     (case (day_number (task_lastExecutionDate task), day_number (tpl (task_dueDate task))) of
        (Some l, Some d) \<Rightarrow> l < d
      | _ \<Rightarrow> False)"

definition spec_task_included :: "int \<Rightarrow> real \<Rightarrow> RecurringTask \<Rightarrow> bool" where
  "spec_task_included today threshold task =
     (\<not> task_completed task \<and> truthy (task_dueDate task) \<and>
      (case calendar_days_until_due today task of
         None \<Rightarrow> False
       | Some dd \<Rightarrow>
           (0 \<le> dd \<and> real_of_int dd \<le> threshold) \<or>
           (dd < 0 \<and> (last_execution_absent task \<or> executed_before_due task))))"

text \<open>A task whose dates, where it has them, are date strings.\<close>

definition iso_dates :: "RecurringTask \<Rightarrow> bool" where
  "iso_dates task =
     ((truthy (task_dueDate task) \<longrightarrow> day_number (tpl (task_dueDate task)) \<noteq> None) \<and>
      (task_lastExecutionDate task \<noteq> [] \<longrightarrow> day_number (task_lastExecutionDate task) \<noteq> None))"

text \<open>
  Two clock readings of one runtime on the same day: the date functions are the same,
  and so is the start of the current day.
\<close>

definition same_day :: "Env \<Rightarrow> Env \<Rightarrow> bool" where
  "same_day env1 env2 =
     (parseDate env2 = parseDate env1 \<and> startOfDay env2 = startOfDay env1 \<and>
      startOfDay env2 (dateNow env2) = startOfDay env1 (dateNow env1))"

text \<open>
  An id that renders a clock reading earlier than \<open>now\<close>, as every id does that an
  earlier confirmation created while the clock only moved forward.
\<close>

definition minted_before :: "int \<Rightarrow> string \<Rightarrow> bool" where
  "minted_before now i = (toString (read_int i) = i \<and> read_int i < now)"

text \<open>
  A function call that \<^verbatim>\<open>sendMessage\<close> turns into a pending action: one of the four
  declared names, with arguments present.
\<close>

definition model_intent :: "FunctionCall \<Rightarrow> bool" where
  "model_intent fc =
     (fc_name fc \<in> {Some ''createCalendarEvent'', Some ''createRecurringTask'',
                     Some ''payBill'', Some ''createGoal''}
      \<and> fc_args fc \<noteq> None)"

section \<open>Example inputs\<close>

text \<open>
  A runtime in the UTC zone at noon of 2025-03-01, whose date parser knows four dates.
\<close>

definition ex_parse :: "string \<Rightarrow> int option" where
  "ex_parse = map_of
     [(''2025-02-20'', 1740009600000), (''2025-03-01'', 1740787200000),
      (''2025-03-04'', 1741046400000), (''2025-03-10'', 1741564800000)]"

definition ex_env :: Env where
  "ex_env =
     \<lparr>dateNow = 1740830400000,
      todayISO = ''2025-03-01'',
      formatEventDateTime = (\<lambda>d t. tpl d @ '' '' @ tpl t),
      formatCurrency = (\<lambda>a. ''$42.50''),
      parseDate = ex_parse,
      startOfDay = (\<lambda>t. t - t mod 86400000)\<rparr>"

text \<open>The same runtime one hour later, and two days later.\<close>

definition ex_env_hour_later :: Env where
  "ex_env_hour_later = ex_env\<lparr>dateNow := 1740834000000\<rparr>"

definition ex_env_two_days_later :: Env where
  "ex_env_two_days_later = ex_env\<lparr>dateNow := 1741003200000\<rparr>"

text \<open>
  A runtime in New York (five hours behind UTC) at noon local time of 2025-03-01.
\<close>

definition ny_env :: Env where
  "ny_env =
     ex_env\<lparr>dateNow := 1740848400000,
            parseDate := utc_midnight,
            startOfDay := local_midnight (- 18000000)\<rparr>"

definition water_plants :: RecurringTask where
  "water_plants =
     \<lparr>task_id = ''1'', task_title = Some ''Water plants'', task_recurrence = Some ''weekly'',
      task_lastExecutionDate = ''2025-02-20'', task_dueDate = Some ''2025-03-04'',
      task_completed = False\<rparr>"

text \<open>
  A task due on 2025-03-01 and executed on that day, a task due on 2025-03-09, and a
  task due on 2025-03-10.
\<close>

definition due_today :: RecurringTask where
  "due_today =
     water_plants\<lparr>task_dueDate := Some ''2025-03-01'', task_lastExecutionDate := ''2025-03-01''\<rparr>"

definition due_in_eight_days :: RecurringTask where
  "due_in_eight_days = water_plants\<lparr>task_dueDate := Some ''2025-03-09''\<rparr>"

definition due_in_nine_days :: RecurringTask where
  "due_in_nine_days = water_plants\<lparr>task_dueDate := Some ''2025-03-10''\<rparr>"

definition ex_state :: AppState where
  "ex_state = initialState True [] [water_plants] [] []"

definition ex_state_nine :: AppState where
  "ex_state_nine = initialState True [] [due_in_nine_days] [] []"

definition ex_session :: Session where
  "ex_session = initialSession True [] [water_plants] [] []"

definition dentist_call :: FunctionCall where
  "dentist_call =
     \<lparr>fc_id = Some ''call-1'', fc_name = Some ''createCalendarEvent'',
      fc_args = Some [(''title'', JStr ''Dentist''), (''date'', JStr ''2025-03-10''),
                      (''time'', JStr ''09:00'')]\<rparr>"

definition bill_call :: FunctionCall where
  "bill_call =
     \<lparr>fc_id = Some ''call-2'', fc_name = Some ''payBill'',
      fc_args = Some [(''biller'', JStr ''Acme Power''), (''amount'', JNum 42.5),
                      (''dueDate'', JStr ''2025-04-01'')]\<rparr>"

definition goal_call :: FunctionCall where
  "goal_call =
     \<lparr>fc_id = Some ''call-3'', fc_name = Some ''createGoal'',
      fc_args = Some [(''title'', JStr ''Run a marathon''), (''targetDate'', JStr ''2025-10-01''),
                      (''progress'', JNum 80), (''status'', JStr ''completed'')]\<rparr>"

definition intent_of :: "FunctionCall \<Rightarrow> OracleResult" where
  "intent_of fc = Responded \<lparr>functionCalls = Some [fc], resp_text = None, groundingChunks = None\<rparr>"

definition old_event :: "string \<Rightarrow> CalendarEvent" where
  "old_event i =
     \<lparr>ev_id = i, ev_title = Some ''Standup'', ev_date = Some ''2025-03-02'',
      ev_time = Some ''10:00''\<rparr>"

text \<open>A stored task list: the newer task first, one entry without \<^verbatim>\<open>completed\<close>.\<close>

definition ex_stored :: "StoredTask list" where
  "ex_stored =
     [\<lparr>st_id = ''1740830400000'', st_title = Some ''Pay rent'', st_recurrence = Some ''monthly'',
       st_lastExecutionDate = ''2025-03-01'', st_dueDate = None, st_completed = None\<rparr>,
      \<lparr>st_id = ''1740009600000'', st_title = Some ''Water plants'',
       st_recurrence = Some ''weekly'',
       st_lastExecutionDate = ''2025-02-20'', st_dueDate = Some ''2025-03-04'',
       st_completed = Some True\<rparr>]"

definition ex_json_parse :: "string \<Rightarrow> StoredTask list option" where
  "ex_json_parse raw = (if raw = ''[stored tasks]'' then Some ex_stored else None)"

section \<open>Facts for evaluating the examples\<close>

lemmas ex_defs = ex_state_def initialState_def water_plants_def dentist_call_def bill_call_def
  goal_call_def intent_of_def old_event_def ex_env_def ai_message_def

lemmas handler_defs = sendMessage_def sendMessage_begin_def sendMessage_resume_def
  on_function_call_def set_pending_def handleConfirm_def handleConfirm_begin_def
  handleConfirm_resume_def clear_pending_def handleCancel_def handleCancel_begin_def
  handleCancel_resume_def handleToggleTaskCompletion_def Let_def blank_def is_space_def
  arg_opt_str_def arg_opt_num_def

lemmas date_defs = digits_def is_digit_def read_nat_def days_in_month_def leap_year_def
  days_from_civil_def utc_midnight_def local_midnight_def local_today_def

lemmas task_defs = water_plants_def due_today_def due_in_eight_days_def due_in_nine_days_def

lemmas session_defs = ex_session_def initialSession_def drop_call_def

section \<open>Cancelling\<close>

text \<open>
  C3. Cancelling a pending action of any kind, whatever the model answers to the
  cancellation notice, leaves the calendar events, the recurring tasks, the payment
  history and the goals exactly as they were.
\<close>

theorem cancel_preserves_collections:
  "calendarEvents (handleCancel reply s) = calendarEvents s \<and>
   recurringTasks (handleCancel reply s) = recurringTasks s \<and>
   paymentHistory (handleCancel reply s) = paymentHistory s \<and>
   goals (handleCancel reply s) = goals s"
  by (simp add: handleCancel_def handleCancel_begin_def handleCancel_resume_def Let_def
      split: OracleReply.split)

text \<open>
  Scenario B: a \<^verbatim>\<open>payBill\<close> intent for Acme Power is cancelled; the collections are the
  ones of the example state.
\<close>

theorem cancel_preserves_collections_witness:
  "calendarEvents (handleCancel (ReplyText (Some ''Okay.''))
     (sendMessage ''te'' ''Pay my power bill'' (intent_of bill_call) ex_state)) = [] \<and>
   recurringTasks (handleCancel (ReplyText (Some ''Okay.''))
     (sendMessage ''te'' ''Pay my power bill'' (intent_of bill_call) ex_state)) = [water_plants] \<and>
   paymentHistory (handleCancel (ReplyText (Some ''Okay.''))
     (sendMessage ''te'' ''Pay my power bill'' (intent_of bill_call) ex_state)) = [] \<and>
   goals (handleCancel (ReplyText (Some ''Okay.''))
     (sendMessage ''te'' ''Pay my power bill'' (intent_of bill_call) ex_state)) = []"
  using cancel_preserves_collections [of "ReplyText (Some ''Okay.'')"
      "sendMessage ''te'' ''Pay my power bill'' (intent_of bill_call) ex_state"]
  by (simp add: ex_defs handler_defs)

section \<open>Confirming or cancelling with nothing pending\<close>

lemma confirm_without_pending:
  "pendingActionDetails s = None \<or> pendingActionType s = None \<Longrightarrow> handleConfirm env reply s = s"
  by (auto simp: handleConfirm_def handleConfirm_begin_def split: option.splits)

text \<open>
  C8. With no pending action, \<^const>\<open>handleConfirm\<close> returns at its guard and changes
  nothing (\<open>confirm_without_pending\<close>). \<^const>\<open>handleCancel\<close> has no such guard: in the
  state right after loading, where nothing is pending, it runs its branch for actions
  that came from the user interface and appends the notice \<^verbatim>\<open>Action cancelled.\<close> to the
  conversation.
\<close>

theorem cancel_without_pending_appends_notice:
  "messages (handleCancel reply (initialState cs es ts ps gs)) =
     messages (initialState cs es ts ps gs) @ [ai_message ''Action cancelled.'']"
  by (simp add: handleCancel_def handleCancel_begin_def initialState_def)

section \<open>Decimal rendering of clock readings\<close>

lemma digit_char_value: "d < 10 \<Longrightarrow> of_char (digit_char d) - 48 = (d::nat)"
  by (simp add: digit_char_def)

lemma digit_char_not_minus: "k < 10 \<Longrightarrow> digit_char k \<noteq> CHR ''-''"
proof
  assume k: "k < 10" and "digit_char k = CHR ''-''"
  then have "(of_char (digit_char k) :: nat) = of_char (CHR ''-'')" by simp
  with k show False by (simp add: digit_char_def)
qed

lemma read_show_nat: "read_nat (show_nat n) = n"
proof (induction n rule: show_nat.induct)
  case (1 n)
  show ?case
  proof (cases "n < 10")
    case True
    then show ?thesis
      by (simp add: show_nat.simps [of n] read_nat_def digit_char_value)
  next
    case False
    with 1 have "read_nat (show_nat (n div 10)) = n div 10" by simp
    with False show ?thesis
      by (simp add: show_nat.simps [of n] read_nat_def digit_char_value)
  qed
qed

lemma minus_notin_show_nat: "CHR ''-'' \<notin> set (show_nat n)"
proof (induction n rule: show_nat.induct)
  case (1 n)
  show ?case
  proof (cases "n < 10")
    case True
    then show ?thesis using digit_char_not_minus [of n]
      by (simp add: show_nat.simps [of n])
  next
    case False
    with 1 have "CHR ''-'' \<notin> set (show_nat (n div 10))" by simp
    with False show ?thesis using digit_char_not_minus [of "n mod 10"]
      by (simp add: show_nat.simps [of n])
  qed
qed

lemma show_nat_not_Nil: "show_nat n \<noteq> []"
  by (simp add: show_nat.simps [of n])

lemma read_int_show_nat: "read_int (show_nat n) = int n"
proof (cases "show_nat n")
  case Nil
  then show ?thesis by (simp add: show_nat_not_Nil)
next
  case (Cons c cs)
  with minus_notin_show_nat [of n] have "c \<noteq> CHR ''-''" by auto
  with Cons read_show_nat [of n] show ?thesis by simp
qed

lemma read_int_toString: "read_int (toString i) = i"
  by (simp add: toString_def read_int_show_nat read_show_nat)

lemma minted_before_fresh: "minted_before now i \<Longrightarrow> i \<noteq> toString now"
  by (auto simp: minted_before_def read_int_toString)

lemma fresh_in_list:
  "list_all (\<lambda>x. minted_before now (f x)) xs \<Longrightarrow> toString now \<notin> f ` set xs"
  using minted_before_fresh [of now] by (fastforce simp: list_all_iff)

section \<open>What the handlers do to the state\<close>

lemma handleConfirm_event:
  "pendingActionDetails s = Some d \<Longrightarrow> pendingActionType s = Some ActEvent \<Longrightarrow>
   calendarEvents (handleConfirm env reply s) = calendarEvents s @
     [\<lparr>ev_id = toString (dateNow env), ev_title = pd_title d, ev_date = pd_date d, ev_time = pd_time d\<rparr>]"
  by (cases reply)
    (simp_all add: handleConfirm_def handleConfirm_begin_def handleConfirm_resume_def
      clear_pending_def Let_def)

lemma handleConfirm_task:
  "pendingActionDetails s = Some d \<Longrightarrow> pendingActionType s = Some ActTask \<Longrightarrow>
   recurringTasks (handleConfirm env reply s) = recurringTasks s @
     [\<lparr>task_id = toString (dateNow env), task_title = pd_title d,
       task_recurrence = pd_recurrence d, task_lastExecutionDate = todayISO env,
       task_dueDate = pd_dueDate d, task_completed = False\<rparr>]"
  by (cases reply)
    (simp_all add: handleConfirm_def handleConfirm_begin_def handleConfirm_resume_def
      clear_pending_def Let_def)

lemma handleConfirm_payment:
  "pendingActionDetails s = Some d \<Longrightarrow> pendingActionType s = Some ActPayment \<Longrightarrow>
   paymentHistory (handleConfirm env reply s) = paymentHistory s @
     [\<lparr>pay_id = toString (dateNow env), pay_biller = pd_biller d, pay_amount = pd_amount d,
       pay_dueDate = pd_dueDate d, pay_paymentDate = todayISO env\<rparr>]"
  by (cases reply)
    (simp_all add: handleConfirm_def handleConfirm_begin_def handleConfirm_resume_def
      clear_pending_def Let_def)

lemma handleConfirm_goal:
  "pendingActionDetails s = Some d \<Longrightarrow> pendingActionType s = Some ActGoal \<Longrightarrow>
   goals (handleConfirm env reply s) = goals s @
     [\<lparr>goal_id = toString (dateNow env), goal_title = pd_title d,
       goal_description = pd_description d, goal_targetDate = pd_targetDate d,
       goal_progress = 0, goal_status = NotStarted, goal_creationDate = todayISO env\<rparr>]"
  by (cases reply)
    (simp_all add: handleConfirm_def handleConfirm_begin_def handleConfirm_resume_def
      clear_pending_def Let_def)

lemma handleConfirm_toggle:
  "pendingActionDetails s = Some d \<Longrightarrow> pendingActionType s = Some ConfirmTaskCompletion \<Longrightarrow>
   recurringTasks (handleConfirm env reply s) =
     map (\<lambda>task. if task_id task = pd_id d then task\<lparr>task_completed := pd_completed d\<rparr> else task)
       (recurringTasks s)"
  by (simp add: handleConfirm_def handleConfirm_begin_def clear_pending_def Let_def)

lemma sendMessage_intent:
  assumes "\<not> blank txt" "\<not> loading s" "functionCalls r = Some (fc # fcs)" "model_intent fc"
  shows "pendingFunctionCall (sendMessage te txt (Responded r) s) = Some fc"
    and "pendingActionType (sendMessage te txt (Responded r) s) \<in>
           {Some ActEvent, Some ActTask, Some ActPayment, Some ActGoal}"
  using assms
  by (auto simp: sendMessage_def sendMessage_begin_def sendMessage_resume_def
      on_function_call_def set_pending_def model_intent_def)

lemma sendMessage_createGoal:
  assumes "\<not> blank txt" "\<not> loading s" "functionCalls r = Some (fc # fcs)"
    "fc_name fc = Some ''createGoal''" "fc_args fc = Some args"
  shows "pendingActionType (sendMessage te txt (Responded r) s) = Some ActGoal"
    and "pendingActionDetails (sendMessage te txt (Responded r) s) =
      Some (GoalDetails \<lparr>goal_id = [], goal_title = arg_opt_str args ''title'',
                goal_description = arg_opt_str args ''description'',
                goal_targetDate = arg_opt_str args ''targetDate'',
                goal_progress = 0, goal_status = NotStarted, goal_creationDate = []\<rparr>)"
    and "goals (sendMessage te txt (Responded r) s) = goals s"
  using assms
  by (simp_all add: sendMessage_def sendMessage_begin_def sendMessage_resume_def
      on_function_call_def set_pending_def)

lemma toggle_found:
  assumes "find (\<lambda>task. task_id task = taskId) (recurringTasks s) = Some t"
  shows "handleToggleTaskCompletion taskId cur s =
     s\<lparr>pendingActionDetails := Some (TaskDetails (t\<lparr>task_completed := \<not> cur\<rparr>)),
       pendingActionType := Some ConfirmTaskCompletion,
       pendingFunctionCall :=
         Some \<lparr>fc_id = Some (''toggle-'' @ taskId), fc_name = Some ''toggleTaskCompletion'',
               fc_args = Some [(''taskId'', JStr taskId), (''newStatus'', JBool (\<not> cur))]\<rparr>,
       showConfirmationDialog := True\<rparr>"
  using assms by (simp add: handleToggleTaskCompletion_def)


section \<open>Confirming a creation\<close>

lemma digit_char_literals:
  "digit_char 0 = CHR ''0''" "digit_char 1 = CHR ''1''" "digit_char 2 = CHR ''2''"
  "digit_char 3 = CHR ''3''" "digit_char 4 = CHR ''4''" "digit_char 5 = CHR ''5''"
  "digit_char 6 = CHR ''6''" "digit_char 7 = CHR ''7''" "digit_char 8 = CHR ''8''"
  "digit_char 9 = CHR ''9''" "digit_char (Suc 0) = CHR ''1''"
  by code_simp+

lemma ex_now: "toString (dateNow ex_env) = ''1740830400000''"
  by (simp add: ex_env_def toString_def show_nat.simps digit_char_literals)

lemma ex_minted: "minted_before (dateNow ex_env) ''1740009600000''"
  by (simp add: ex_env_def minted_before_def read_nat_def toString_def show_nat.simps
      digit_char_literals)

lemma dentist_pending:
  "pendingActionDetails (sendMessage ''te'' ''Book the dentist'' (intent_of dentist_call)
      (initialState True [old_event i] [] [] [])) =
     Some (EventDetails
       \<lparr>ev_id = [], ev_title = Some ''Dentist'', ev_date = Some ''2025-03-10'',
         ev_time = Some ''09:00''\<rparr>)"
  "pendingActionType (sendMessage ''te'' ''Book the dentist'' (intent_of dentist_call)
      (initialState True [old_event i] [] [] [])) = Some ActEvent"
  "calendarEvents (sendMessage ''te'' ''Book the dentist'' (intent_of dentist_call)
      (initialState True [old_event i] [] [] [])) = [old_event i]"
  by (simp_all add: initialState_def dentist_call_def intent_of_def ai_message_def handler_defs)

text \<open>
  C2, as the code has it. For every confirmed pending action of kind event, task, payment
  or goal, the collection of that kind after the confirmation is the old collection with
  exactly one record appended. The id of the new record is the decimal rendering of
  \<^verbatim>\<open>Date.now()\<close> at the confirmation; no check compares it with the ids in the
  collection. It is distinct from all of them when each of them renders an earlier clock
  reading.
\<close>

theorem confirm_appends_one_record:
  assumes "pendingActionDetails s = Some d"
  shows "(pendingActionType s = Some ActEvent \<longrightarrow>
           calendarEvents (handleConfirm env reply s) = calendarEvents s @
             [\<lparr>ev_id = toString (dateNow env), ev_title = pd_title d,
               ev_date = pd_date d, ev_time = pd_time d\<rparr>] \<and>
           (list_all (\<lambda>e. minted_before (dateNow env) (ev_id e)) (calendarEvents s) \<longrightarrow>
              toString (dateNow env) \<notin> ev_id ` set (calendarEvents s))) \<and>
         (pendingActionType s = Some ActTask \<longrightarrow>
           recurringTasks (handleConfirm env reply s) = recurringTasks s @
             [\<lparr>task_id = toString (dateNow env), task_title = pd_title d,
               task_recurrence = pd_recurrence d, task_lastExecutionDate = todayISO env,
               task_dueDate = pd_dueDate d, task_completed = False\<rparr>] \<and>
           (list_all (\<lambda>t. minted_before (dateNow env) (task_id t)) (recurringTasks s) \<longrightarrow>
              toString (dateNow env) \<notin> task_id ` set (recurringTasks s))) \<and>
         (pendingActionType s = Some ActPayment \<longrightarrow>
           paymentHistory (handleConfirm env reply s) = paymentHistory s @
             [\<lparr>pay_id = toString (dateNow env), pay_biller = pd_biller d,
               pay_amount = pd_amount d, pay_dueDate = pd_dueDate d,
               pay_paymentDate = todayISO env\<rparr>] \<and>
           (list_all (\<lambda>p. minted_before (dateNow env) (pay_id p)) (paymentHistory s) \<longrightarrow>
              toString (dateNow env) \<notin> pay_id ` set (paymentHistory s))) \<and>
         (pendingActionType s = Some ActGoal \<longrightarrow>
           goals (handleConfirm env reply s) = goals s @
             [\<lparr>goal_id = toString (dateNow env), goal_title = pd_title d,
               goal_description = pd_description d, goal_targetDate = pd_targetDate d,
               goal_progress = 0, goal_status = NotStarted,
               goal_creationDate = todayISO env\<rparr>] \<and>
           (list_all (\<lambda>g. minted_before (dateNow env) (goal_id g)) (goals s) \<longrightarrow>
              toString (dateNow env) \<notin> goal_id ` set (goals s)))"
  using assms
  by (simp add: handleConfirm_event handleConfirm_task handleConfirm_payment handleConfirm_goal
      fresh_in_list)

text \<open>
  Scenario A, with one older event in the store: the dentist appointment is appended
  after it under a fresh id.
\<close>

theorem confirm_appends_one_record_witness:
  "calendarEvents (handleConfirm ex_env (ReplyText (Some ''Done.''))
     (sendMessage ''te'' ''Book the dentist'' (intent_of dentist_call)
        (initialState True [old_event ''1740009600000''] [] [] []))) =
     [old_event ''1740009600000'',
      \<lparr>ev_id = ''1740830400000'', ev_title = Some ''Dentist'', ev_date = Some ''2025-03-10'',
        ev_time = Some ''09:00''\<rparr>] \<and>
   ''1740830400000'' \<notin> ev_id ` set [old_event ''1740009600000'']"
proof -
  have m: "list_all (\<lambda>e. minted_before (dateNow ex_env) (ev_id e)) [old_event ''1740009600000'']"
    by (simp add: old_event_def ex_minted)
  from confirm_appends_one_record [OF dentist_pending(1) [of "''1740009600000''"],
      where env = ex_env and reply = "ReplyText (Some ''Done.'')"]
    dentist_pending(2) [of "''1740009600000''"] dentist_pending(3) [of "''1740009600000''"] m
  show ?thesis by (simp add: ex_now)
qed

text \<open>
  The claim as stated fails where the store already holds an event whose id renders the
  reading that the clock gives at the confirmation: the appended event carries an id
  that is already in the collection.
\<close>

theorem confirm_id_collision_counterexample:
  "ev_id (last (calendarEvents (handleConfirm ex_env (ReplyText (Some ''Done.''))
     (sendMessage ''te'' ''Book the dentist'' (intent_of dentist_call)
        (initialState True [old_event ''1740830400000''] [] [] []))))) \<in>
   ev_id ` set (calendarEvents
     (sendMessage ''te'' ''Book the dentist'' (intent_of dentist_call)
        (initialState True [old_event ''1740830400000''] [] [] [])))"
proof -
  have "calendarEvents (handleConfirm ex_env (ReplyText (Some ''Done.''))
     (sendMessage ''te'' ''Book the dentist'' (intent_of dentist_call)
        (initialState True [old_event ''1740830400000''] [] [] []))) =
     [old_event ''1740830400000'',
      \<lparr>ev_id = ''1740830400000'', ev_title = Some ''Dentist'', ev_date = Some ''2025-03-10'',
        ev_time = Some ''09:00''\<rparr>]"
    using handleConfirm_event [OF dentist_pending(1) [of "''1740830400000''"]
        dentist_pending(2) [of "''1740830400000''"],
        where env = ex_env and reply = "ReplyText (Some ''Done.'')"]
      dentist_pending(3) [of "''1740830400000''"]
    by (simp add: ex_now)
  then show ?thesis
    using dentist_pending(3) [of "''1740830400000''"] by (simp add: old_event_def)
qed


section \<open>Confirming a toggle\<close>

lemma toggle_example:
  "handleToggleTaskCompletion ''1'' False ex_state =
     ex_state\<lparr>pendingActionDetails := Some (TaskDetails (water_plants\<lparr>task_completed := True\<rparr>)),
       pendingActionType := Some ConfirmTaskCompletion,
       pendingFunctionCall :=
         Some \<lparr>fc_id = Some ''toggle-1'', fc_name = Some ''toggleTaskCompletion'',
               fc_args = Some [(''taskId'', JStr ''1''), (''newStatus'', JBool True)]\<rparr>,
       showConfirmationDialog := True\<rparr>"
  by (simp add: handleToggleTaskCompletion_def ex_state_def initialState_def water_plants_def)

text \<open>
  C4. For every confirmed toggle of a task's completion, the task collection keeps its
  length; every task whose id differs from the draft's id is unchanged; every task with
  the draft's id is unchanged except for \<^verbatim>\<open>completed\<close>, which takes the draft's value;
  in particular \<^verbatim>\<open>lastExecutionDate\<close> is unchanged everywhere.
\<close>

theorem toggle_commit_frame:
  assumes "pendingActionType s = Some ConfirmTaskCompletion"
    and "pendingActionDetails s = Some (TaskDetails d)"
  shows "length (recurringTasks (handleConfirm env reply s)) = length (recurringTasks s) \<and>
    (\<forall>i < length (recurringTasks s).
       (task_id (recurringTasks s ! i) \<noteq> task_id d \<longrightarrow>
          recurringTasks (handleConfirm env reply s) ! i = recurringTasks s ! i) \<and>
       (task_id (recurringTasks s ! i) = task_id d \<longrightarrow>
          recurringTasks (handleConfirm env reply s) ! i =
            (recurringTasks s ! i)\<lparr>task_completed := task_completed d\<rparr>) \<and>
       task_lastExecutionDate (recurringTasks (handleConfirm env reply s) ! i) =
         task_lastExecutionDate (recurringTasks s ! i))"
  using handleConfirm_toggle [OF assms(2) assms(1), of env reply]
  by simp

text \<open>
  Scenario C: the task with id 1 is not completed; the user toggles it and confirms;
  the same task is now completed, its last execution date is the old one and the
  collection still has one task.
\<close>

theorem toggle_commit_frame_witness:
  "recurringTasks ex_state = [water_plants] \<and>
   recurringTasks (handleConfirm ex_env ReplyError (handleToggleTaskCompletion ''1'' False ex_state)) =
     [water_plants\<lparr>task_completed := True\<rparr>] \<and>
   task_lastExecutionDate (recurringTasks
     (handleConfirm ex_env ReplyError (handleToggleTaskCompletion ''1'' False ex_state)) ! 0) =
     ''2025-02-20''"
proof -
  let ?s = "handleToggleTaskCompletion ''1'' False ex_state"
  have t: "pendingActionType ?s = Some ConfirmTaskCompletion"
    by (simp add: toggle_example)
  have d: "pendingActionDetails ?s = Some (TaskDetails (water_plants\<lparr>task_completed := True\<rparr>))"
    by (simp add: toggle_example)
  have r: "recurringTasks ?s = [water_plants]"
    by (simp add: toggle_example) (simp add: ex_state_def initialState_def)
  have e: "recurringTasks ex_state = [water_plants]"
    by (simp add: ex_state_def initialState_def)
  have i: "task_id water_plants = ''1''" "task_lastExecutionDate water_plants = ''2025-02-20''"
    by (simp_all add: water_plants_def)
  from toggle_commit_frame [OF t d, of ex_env ReplyError] r
  have "length (recurringTasks (handleConfirm ex_env ReplyError ?s)) = 1"
    and "recurringTasks (handleConfirm ex_env ReplyError ?s) ! 0 = water_plants\<lparr>task_completed := True\<rparr>"
    using i by simp_all
  then have "recurringTasks (handleConfirm ex_env ReplyError ?s) = [water_plants\<lparr>task_completed := True\<rparr>]"
    by (cases "recurringTasks (handleConfirm ex_env ReplyError ?s)") simp_all
  with e i show ?thesis by simp
qed

section \<open>Creating a goal\<close>

text \<open>
  C5. Every goal that a confirmed goal action creates has progress 0 and the status
  \<^const>\<open>NotStarted\<close>: whatever the pending draft holds, and, from the arrival of a
  \<^verbatim>\<open>createGoal\<close> call to its confirmation, whatever the argument bag of the call holds.
\<close>

theorem goal_creation_defaults:
  "(pendingActionDetails s = Some d \<and> pendingActionType s = Some ActGoal \<longrightarrow>
      (\<exists>g. goals (handleConfirm env reply s) = goals s @ [g] \<and>
           goal_progress g = 0 \<and> goal_status g = NotStarted)) \<and>
   (\<not> blank u \<and> \<not> loading s0 \<and> functionCalls r = Some (fc # fcs) \<and>
    fc_name fc = Some ''createGoal'' \<and> fc_args fc = Some args \<longrightarrow>
      (\<exists>g. goals (handleConfirm env reply (sendMessage te u (Responded r) s0)) = goals s0 @ [g] \<and>
           goal_progress g = 0 \<and> goal_status g = NotStarted))"
proof (intro conjI impI)
  assume "pendingActionDetails s = Some d \<and> pendingActionType s = Some ActGoal"
  then show "\<exists>g. goals (handleConfirm env reply s) = goals s @ [g] \<and>
           goal_progress g = 0 \<and> goal_status g = NotStarted"
    by (simp add: handleConfirm_goal)
next
  assume a: "\<not> blank u \<and> \<not> loading s0 \<and> functionCalls r = Some (fc # fcs) \<and>
    fc_name fc = Some ''createGoal'' \<and> fc_args fc = Some args"
  let ?s = "sendMessage te u (Responded r) s0"
  from a have "pendingActionType ?s = Some ActGoal"
    and "\<exists>d. pendingActionDetails ?s = Some d" and "goals ?s = goals s0"
    by (simp_all add: sendMessage_createGoal)
  then show "\<exists>g. goals (handleConfirm env reply ?s) = goals s0 @ [g] \<and>
           goal_progress g = 0 \<and> goal_status g = NotStarted"
    by (auto simp: handleConfirm_goal)
qed

text \<open>
  A \<^verbatim>\<open>createGoal\<close> call whose arguments ask for progress 80 and the status
  \<^verbatim>\<open>completed\<close> still creates a goal with progress 0 that is not started.
\<close>

theorem goal_creation_defaults_witness:
  "goals (handleConfirm ex_env (ReplyText None)
     (sendMessage ''te'' ''I want to run a marathon'' (intent_of goal_call) ex_state)) =
   [\<lparr>goal_id = ''1740830400000'', goal_title = Some ''Run a marathon'',
     goal_description = None, goal_targetDate = Some ''2025-10-01'', goal_progress = 0, goal_status = NotStarted,
     goal_creationDate = ''2025-03-01''\<rparr>]"
proof -
  have "goals (handleConfirm ex_env (ReplyText None)
     (sendMessage ''te'' ''I want to run a marathon'' (intent_of goal_call) ex_state)) =
   [\<lparr>goal_id = toString (dateNow ex_env), goal_title = Some ''Run a marathon'',
     goal_description = None, goal_targetDate = Some ''2025-10-01'', goal_progress = 0, goal_status = NotStarted,
     goal_creationDate = ''2025-03-01''\<rparr>]"
    using goal_creation_defaults [where s0 = ex_state and env = ex_env and reply = "ReplyText None"
        and s = "sendMessage ''te'' ''I want to run a marathon'' (intent_of goal_call) ex_state"
        and d = "GoalDetails \<lparr>goal_id = [], goal_title = Some ''Run a marathon'',
                   goal_description = None, goal_targetDate = Some ''2025-10-01'', goal_progress = 0,
                   goal_status = NotStarted, goal_creationDate = []\<rparr>"
        and u = "''I want to run a marathon''"
        and r = "\<lparr>functionCalls = Some [goal_call], resp_text = None, groundingChunks = None\<rparr>"
        and fc = goal_call and fcs = "[]"
        and args = "[(''title'', JStr ''Run a marathon''), (''targetDate'', JStr ''2025-10-01''),
                      (''progress'', JNum 80), (''status'', JStr ''completed'')]"
        and te = "''te''"]
    by (simp add: ex_state_def initialState_def goal_call_def intent_of_def ai_message_def
        handler_defs) (simp add: ex_env_def)
  then show ?thesis by (simp add: ex_now)
qed

section \<open>The pending function call\<close>

text \<open>
  C9, as the code has it. A toggle requested from the user interface for an existing task
  stores a placeholder function call with the id \<^verbatim>\<open>toggle-\<close> followed by the task id, the
  name \<^verbatim>\<open>toggleTaskCompletion\<close> and the arguments \<^verbatim>\<open>taskId\<close> and \<^verbatim>\<open>newStatus\<close>; the origin
  in the user interface is told by the action type. A pending action created from a call
  returned by the model stores that call. In both cases the field is set.
\<close>

theorem pending_function_call_origin:
  "(find (\<lambda>task. task_id task = taskId) (recurringTasks s) = Some t \<longrightarrow>
      pendingActionType (handleToggleTaskCompletion taskId cur s) = Some ConfirmTaskCompletion \<and>
      pendingFunctionCall (handleToggleTaskCompletion taskId cur s) =
        Some \<lparr>fc_id = Some (''toggle-'' @ taskId), fc_name = Some ''toggleTaskCompletion'',
              fc_args = Some [(''taskId'', JStr taskId), (''newStatus'', JBool (\<not> cur))]\<rparr>) \<and>
   (\<not> blank u \<and> \<not> loading s \<and> functionCalls r = Some (fc # fcs) \<and> model_intent fc \<longrightarrow>
      pendingActionType (sendMessage te u (Responded r) s) \<in>
        {Some ActEvent, Some ActTask, Some ActPayment, Some ActGoal} \<and>
      pendingFunctionCall (sendMessage te u (Responded r) s) = Some fc)"
  using sendMessage_intent [of u s r fc fcs te]
  by (auto simp: toggle_found)

theorem pending_function_call_origin_witness:
  "pendingFunctionCall (handleToggleTaskCompletion ''1'' False ex_state) =
     Some \<lparr>fc_id = Some ''toggle-1'', fc_name = Some ''toggleTaskCompletion'',
           fc_args = Some [(''taskId'', JStr ''1''), (''newStatus'', JBool True)]\<rparr> \<and>
   pendingFunctionCall (sendMessage ''te'' ''Book the dentist'' (intent_of dentist_call) ex_state) =
     Some dentist_call"
  using pending_function_call_origin [of "''1''" ex_state water_plants False "''Book the dentist''"
      "\<lparr>functionCalls = Some [dentist_call], resp_text = None, groundingChunks = None\<rparr>"
      dentist_call "[]" "''te''"]
  by (simp add: ex_state_def initialState_def intent_of_def model_intent_def dentist_call_def
      blank_def is_space_def water_plants_def)

text \<open>
  The claim as stated fails: after the toggle of the task with id 1 in the example state,
  the pending function call is not null.
\<close>

theorem toggle_sets_function_call_counterexample:
  "pendingFunctionCall (handleToggleTaskCompletion ''1'' False ex_state) \<noteq> None"
  by (simp add: toggle_example)


section \<open>Loading the recurring tasks\<close>

text \<open>
  C10. When the storage slot holds a parsable task list, loading returns a list of the
  same length in the same order (nothing is filtered out, nothing is sorted), and each
  loaded task has the fields of the stored one at its position, with \<^verbatim>\<open>completed\<close>
  defaulting to false where the stored one has none.
\<close>

theorem load_tasks_keeps_list:
  assumes "parse raw = Some stored"
  shows "length (loadRecurringTasksFromLocalStorage parse (Item raw)) = length stored \<and>
    (\<forall>i < length stored.
       task_id (loadRecurringTasksFromLocalStorage parse (Item raw) ! i) = st_id (stored ! i) \<and>
       task_title (loadRecurringTasksFromLocalStorage parse (Item raw) ! i) = st_title (stored ! i) \<and>
       task_recurrence (loadRecurringTasksFromLocalStorage parse (Item raw) ! i) =
         st_recurrence (stored ! i) \<and>
       task_lastExecutionDate (loadRecurringTasksFromLocalStorage parse (Item raw) ! i) =
         st_lastExecutionDate (stored ! i) \<and>
       task_dueDate (loadRecurringTasksFromLocalStorage parse (Item raw) ! i) =
         st_dueDate (stored ! i) \<and>
       task_completed (loadRecurringTasksFromLocalStorage parse (Item raw) ! i) =
         (case st_completed (stored ! i) of None \<Rightarrow> False | Some b \<Rightarrow> b))"
  using assms by (simp add: fill_completed_def)

text \<open>
  The stored list of the example is returned in its stored order, newer task first, and
  the missing \<^verbatim>\<open>completed\<close> is false.
\<close>

theorem load_tasks_keeps_list_witness:
  "loadRecurringTasksFromLocalStorage ex_json_parse (Item ''[stored tasks]'') =
     [\<lparr>task_id = ''1740830400000'', task_title = Some ''Pay rent'',
       task_recurrence = Some ''monthly'',
       task_lastExecutionDate = ''2025-03-01'', task_dueDate = None, task_completed = False\<rparr>,
      \<lparr>task_id = ''1740009600000'', task_title = Some ''Water plants'',
       task_recurrence = Some ''weekly'',
       task_lastExecutionDate = ''2025-02-20'', task_dueDate = Some ''2025-03-04'',
       task_completed = True\<rparr>]"
  using load_tasks_keeps_list [of ex_json_parse "''[stored tasks]''" ex_stored]
  by (simp add: ex_json_parse_def ex_stored_def fill_completed_def)

section \<open>The reminder scan\<close>

lemma ex_day_numbers:
  "day_number ''2025-03-01'' = Some 20148"
  "day_number ''2025-03-09'' = Some 20156"
  "day_number ''2025-02-20'' = Some 20139"
  "day_number ''1970-01-01'' = Some 0"
  "day_number ''2024-02-29'' = Some 19782"
  "day_number ''2025-02-29'' = None"
  by (simp_all add: digits_def is_digit_def read_nat_def days_in_month_def leap_year_def
      days_from_civil_def)

lemma midnight_of_day:
  assumes "- 86400000 < off" "off < 86400000"
  shows "local_midnight off (d * 86400000) = (d - (if off < 0 then 1 else 0)) * 86400000 - off"
proof (cases "off < 0")
  case True
  with assms have "(d * 86400000 + off) div 86400000 = d - 1" by linarith
  with True show ?thesis by (simp add: local_midnight_def)
next
  case False
  with assms have "(d * 86400000 + off) div 86400000 = d" by linarith
  with False show ?thesis by (simp add: local_midnight_def)
qed

lemma ceil_days: "\<lceil>real_of_int (n * 86400000) / (1000 * 60 * 60 * 24)\<rceil> = n"
  by simp


lemma before_due_iff:
  assumes "- 86400000 < off" "off < 86400000"
  shows "l * 86400000 < (d - (if off < 0 then 1 else 0)) * 86400000 - off \<longleftrightarrow> l < (d::int)"
  using assms by (cases "off < 0") auto

lemma scan_task_parsed:
  assumes "\<not> task_completed task" and "truthy (task_dueDate task)"
    and "map_option (startOfDay env) (parseDate env (tpl (task_dueDate task))) = Some due"
    and "\<lceil>real_of_int (due - today) / (1000 * 60 * 60 * 24)\<rceil> = dd"
  shows "scan_task env thr today acc task =
     (if dd \<ge> 0 \<and> real_of_int dd \<le> thr then acc @ [task]
      else if dd < 0 then
        (if task_lastExecutionDate task = [] then acc @ [task]
         else case parseDate env (task_lastExecutionDate task) of
                None \<Rightarrow> acc
              | Some l \<Rightarrow> if l < due then acc @ [task] else acc)
      else acc)"
  unfolding scan_task_def Let_def assms(3) option.case assms(4)
  using assms(1,2) by simp

lemma scan_task_calendar:
  assumes js: "js_dates off env" and b: "- 86400000 < off" "off < 86400000"
    and iso: "iso_dates task"
  shows "scan_task env thr (startOfDay env (dateNow env)) acc task =
     acc @ (if spec_task_included
                 (local_today off (dateNow env) + (if off < 0 then 1 else 0)) thr task
            then [task] else [])"
proof (cases "task_completed task \<or> \<not> truthy (task_dueDate task)")
  case True
  then show ?thesis
    by (auto simp: scan_task_def spec_task_included_def)
next
  case False
  then have nc: "\<not> task_completed task" and td: "truthy (task_dueDate task)" by auto
  define k :: int where "k = (if off < 0 then 1 else 0)"
  define T where "T = local_today off (dateNow env)"
  from iso td obtain D where D: "day_number (tpl (task_dueDate task)) = Some D"
    by (auto simp: iso_dates_def)
  from js D have p: "parseDate env (tpl (task_dueDate task)) = Some (D * 86400000)"
    by (simp add: js_dates_def)
  from js have sod: "startOfDay env = local_midnight off"
    by (auto simp: js_dates_def)
  have due: "local_midnight off (D * 86400000) = (D - k) * 86400000 - off"
    using midnight_of_day [OF b] by (simp add: k_def)
  have today: "startOfDay env (dateNow env) = T * 86400000 - off"
    by (simp add: sod local_midnight_def local_today_def T_def)
  have parsed: "map_option (startOfDay env) (parseDate env (tpl (task_dueDate task))) =
      Some ((D - k) * 86400000 - off)"
    by (simp add: p sod due)
  have "(D - k) * 86400000 - off - (T * 86400000 - off) = (D - (T + k)) * 86400000"
    by (simp add: algebra_simps)
  then have dd: "\<lceil>real_of_int ((D - k) * 86400000 - off - (T * 86400000 - off)) /
      (1000 * 60 * 60 * 24)\<rceil> = D - (T + k)"
    by (simp only: ceil_days)
  note st = scan_task_parsed [OF nc td parsed dd, of thr acc]
  have cal: "calendar_days_until_due (T + k) task = Some (D - (T + k))"
    using td D by (simp add: calendar_days_until_due_def)
  have goal: "scan_task env thr (T * 86400000 - off) acc task =
      acc @ (if spec_task_included (T + k) thr task then [task] else [])"
  proof (cases "task_lastExecutionDate task = []")
    case True
    then show ?thesis
      by (simp add: st spec_task_included_def nc td cal last_execution_absent_def)
  next
    case False
    with iso obtain L where L: "day_number (task_lastExecutionDate task) = Some L"
      by (auto simp: iso_dates_def)
    from js L have pl: "parseDate env (task_lastExecutionDate task) = Some (L * 86400000)"
      by (simp add: js_dates_def)
    have cmp: "L * 86400000 < (D - k) * 86400000 - off \<longleftrightarrow> L < D"
      using before_due_iff [OF b] by (simp add: k_def)
    then have cmp': "L * 86400000 < D * 86400000 - k * 86400000 - off \<longleftrightarrow> L < D"
      by (simp add: algebra_simps)
    have ebd: "executed_before_due task \<longleftrightarrow> L < D"
      using L D by (simp add: executed_before_due_def)
    from False show ?thesis
      by (simp add: st spec_task_included_def nc td cal last_execution_absent_def pl cmp' ebd)
  qed
  then show ?thesis
    by (simp only: today T_def k_def)
qed

lemma foldl_scan_task_calendar:
  assumes "js_dates off env" "- 86400000 < off" "off < 86400000" "list_all iso_dates tasks"
  shows "foldl (scan_task env thr (startOfDay env (dateNow env))) acc tasks =
     acc @ filter (spec_task_included
                     (local_today off (dateNow env) + (if off < 0 then 1 else 0)) thr) tasks"
  using assms(4)
  by (induction tasks arbitrary: acc) (simp_all add: scan_task_calendar [OF assms(1-3)])

lemma scan_is_calendar_rule:
  assumes "js_dates off env" "- 86400000 < off" "off < 86400000" "list_all iso_dates tasks"
  shows "getUpcomingDueDates env tasks thr =
     filter (spec_task_included
               (local_today off (dateNow env) + (if off < 0 then 1 else 0)) thr) tasks"
  using foldl_scan_task_calendar [OF assms, of thr "[]"]
  by (simp add: getUpcomingDueDates_def)

text \<open>
  So in a zone at or east of UTC the scan returns exactly the tasks of the rule, and in a
  zone west of UTC it returns the tasks of the rule as it would be on the following day:
  there the due date, read as midnight UTC, is moved to the local midnight before it.
\<close>

text \<open>
  C6. The scan is to return a task exactly when it is not completed, has a due date and
  is either due within the threshold (0 \<le> days until due \<le> threshold) or overdue
  with a last execution date that is absent or strictly before the due date. In New
  York at noon of 2025-03-01 with the threshold 7 it does not: of a task due that day
  and executed that day, and a task due eight days later, the rule selects the first and
  the scan returns the second.
\<close>

theorem scan_west_of_utc_misses_rule:
  "getUpcomingDueDates ny_env [due_today, due_in_eight_days] 7 = [due_in_eight_days] \<and>
   filter (spec_task_included (local_today (- 18000000) (dateNow ny_env)) 7)
     [due_today, due_in_eight_days] = [due_today]"
proof
  show "getUpcomingDueDates ny_env [due_today, due_in_eight_days] 7 = [due_in_eight_days]"
    by (simp add: getUpcomingDueDates_def scan_task_def ny_env_def ex_env_def task_defs date_defs)
  show "filter (spec_task_included (local_today (- 18000000) (dateNow ny_env)) 7)
     [due_today, due_in_eight_days] = [due_today]"
    by (simp add: spec_task_included_def calendar_days_until_due_def executed_before_due_def
        last_execution_absent_def ny_env_def ex_env_def task_defs date_defs)
qed

section \<open>Posting reminders\<close>

lemma newReminders_filter:
  "newReminders env s =
     filter (\<lambda>msg. \<not> list_ex (\<lambda>m. content m = msg) (messages s))
       (map reminder_text (getUpcomingDueDates env (recurringTasks s) 7))"
  by (auto simp: newReminders_def Let_def getUpcomingDueDates_def)

lemma content_ai_message: "content (ai_message c) = c"
  by (simp add: ai_message_def)

lemma newReminders_after_append:
  "newReminders env (s\<lparr>messages := messages s @ map ai_message (newReminders env s)\<rparr>) = []"
proof -
  let ?R = "map reminder_text (getUpcomingDueDates env (recurringTasks s) 7)"
  let ?s' = "s\<lparr>messages := messages s @ map ai_message (newReminders env s)\<rparr>"
  have "\<forall>msg \<in> set ?R. list_ex (\<lambda>m. content m = msg) (messages ?s')"
  proof
    fix msg assume m: "msg \<in> set ?R"
    show "list_ex (\<lambda>m. content m = msg) (messages ?s')"
    proof (cases "list_ex (\<lambda>m. content m = msg) (messages s)")
      case True
      then show ?thesis by (auto simp: list_ex_iff)
    next
      case False
      with m have "msg \<in> set (newReminders env s)"
        by (simp add: newReminders_filter)
      then have "ai_message msg \<in> set (messages ?s')" by simp
      moreover have "content (ai_message msg) = msg" by (rule content_ai_message)
      ultimately show ?thesis unfolding list_ex_iff by blast
    qed
  qed
  then have "filter (\<lambda>msg. \<not> list_ex (\<lambda>m. content m = msg) (messages ?s')) ?R = []"
    by (simp add: filter_empty_conv)
  then show ?thesis
    by (simp add: newReminders_filter)
qed

lemma reminders_settle: "newReminders env (checkAndPostReminders env s) = []"
proof (cases "newReminders env s = []")
  case True
  then show ?thesis by (simp add: checkAndPostReminders_def)
next
  case False
  then show ?thesis
    by (simp add: checkAndPostReminders_def newReminders_after_append)
qed

lemma same_day_scan:
  assumes "same_day env1 env2"
  shows "getUpcomingDueDates env2 tasks thr = getUpcomingDueDates env1 tasks thr"
proof -
  from assms have p: "parseDate env2 = parseDate env1" and q: "startOfDay env2 = startOfDay env1"
    and t0: "startOfDay env2 (dateNow env2) = startOfDay env1 (dateNow env1)"
    unfolding same_day_def by blast+
  from t0 have t: "startOfDay env1 (dateNow env2) = startOfDay env1 (dateNow env1)"
    by (simp only: q)
  have "scan_task env2 thr today = scan_task env1 thr today" for today
    by (intro ext) (simp only: scan_task_def p q)
  then show ?thesis
    by (simp add: getUpcomingDueDates_def q t)
qed

lemma same_day_newReminders:
  "same_day env1 env2 \<Longrightarrow> newReminders env2 s = newReminders env1 s"
  by (simp add: newReminders_filter same_day_scan)

lemma first_run_example:
  "checkAndPostReminders ex_env ex_state =
     ex_state\<lparr>messages := messages ex_state @
       [ai_message (''Reminder: Your recurring task '' @ dq @ ''Water plants'' @ dq @
          '' is due on 2025-03-04!'')]\<rparr>"
  by (simp add: checkAndPostReminders_def newReminders_def getUpcomingDueDates_def scan_task_def
      ex_parse_def ex_defs reminder_text_def dq_def)

lemma first_run_nine: "checkAndPostReminders ex_env ex_state_nine = ex_state_nine"
  by (simp add: checkAndPostReminders_def newReminders_def getUpcomingDueDates_def scan_task_def
      ex_parse_def ex_state_nine_def initialState_def task_defs ex_env_def)

text \<open>
  C7, as the code has it. For every task list and conversation: after one run of the
  scan-and-post step, a second run on the same day, with the task list unchanged, finds
  no new reminder and leaves the state as the first run left it. The scan reads the
  clock on each run, so the two runs are compared at two clock readings.
\<close>

theorem reminders_idempotent_same_day:
  assumes "same_day env1 env2"
  shows "newReminders env2 (checkAndPostReminders env1 s) = [] \<and>
    checkAndPostReminders env2 (checkAndPostReminders env1 s) = checkAndPostReminders env1 s"
proof -
  have n: "newReminders env2 (checkAndPostReminders env1 s) = []"
    by (simp add: same_day_newReminders [OF assms] reminders_settle)
  then have "checkAndPostReminders env2 (checkAndPostReminders env1 s) =
      checkAndPostReminders env1 s"
    by (simp add: checkAndPostReminders_def [of env2 "checkAndPostReminders env1 s"])
  with n show ?thesis by simp
qed

text \<open>
  In the example state the first run posts one reminder after the welcome message, and a
  second run one hour later posts none.
\<close>

theorem reminders_idempotent_same_day_witness:
  "same_day ex_env ex_env_hour_later \<and>
   length (messages (checkAndPostReminders ex_env ex_state)) = 2 \<and>
   newReminders ex_env_hour_later (checkAndPostReminders ex_env ex_state) = [] \<and>
   checkAndPostReminders ex_env_hour_later (checkAndPostReminders ex_env ex_state) =
     checkAndPostReminders ex_env ex_state"
proof -
  have d: "same_day ex_env ex_env_hour_later"
    by (simp add: same_day_def ex_env_hour_later_def ex_env_def)
  have "length (messages (checkAndPostReminders ex_env ex_state)) = 2"
    by (simp add: first_run_example) (simp add: ex_defs)
  with d reminders_idempotent_same_day [OF d, of ex_state] show ?thesis by simp
qed

text \<open>
  The claim as stated fails when the day changes between the runs: for a task due in
  nine days the first run posts nothing and leaves the task list and the conversation
  as they are, and a run two days later finds a reminder to post.
\<close>

theorem reminder_after_two_days_counterexample:
  "recurringTasks (checkAndPostReminders ex_env ex_state_nine) = recurringTasks ex_state_nine \<and>
   messages (checkAndPostReminders ex_env ex_state_nine) = messages ex_state_nine \<and>
   newReminders ex_env_two_days_later (checkAndPostReminders ex_env ex_state_nine) \<noteq> []"
  by (simp add: first_run_nine)
    (simp add: newReminders_def getUpcomingDueDates_def scan_task_def ex_parse_def
      ex_state_nine_def initialState_def task_defs ex_env_def ex_env_two_days_later_def
      reminder_text_def ai_message_def dq_def)

section \<open>The pending slot over event sequences\<close>

lemma slot_coherent_initial: "slot_coherent (initialState cs es ts ps gs)"
  by (simp add: slot_coherent_def initialState_def)

lemma slot_coherent_frame:
  assumes "slot_coherent s"
    and "pendingActionDetails s' = pendingActionDetails s"
    and "pendingActionType s' = pendingActionType s"
    and "pendingFunctionCall s' = pendingFunctionCall s"
  shows "slot_coherent s'"
  using assms by (simp add: slot_coherent_def)

lemma slot_coherent_cleared:
  assumes "pendingActionDetails s' = None" "pendingActionType s' = None"
    "pendingFunctionCall s' = None"
  shows "slot_coherent s'"
  using assms by (simp add: slot_coherent_def)

lemma slot_coherent_set_pending:
  "kind_matches ty d \<Longrightarrow> slot_coherent (set_pending d ty fc s)"
  by (simp add: slot_coherent_def set_pending_def)

lemma slot_coherent_sendMessage_begin:
  assumes "slot_coherent s" and "sendMessage_begin u s = Some s1"
  shows "slot_coherent s1"
proof (rule slot_coherent_frame [OF assms(1)])
  show "pendingActionDetails s1 = pendingActionDetails s"
    using assms(2) by (auto simp: sendMessage_begin_def split: if_splits)
  show "pendingActionType s1 = pendingActionType s"
    using assms(2) by (auto simp: sendMessage_begin_def split: if_splits)
  show "pendingFunctionCall s1 = pendingFunctionCall s"
    using assms(2) by (auto simp: sendMessage_begin_def split: if_splits)
qed

lemma slot_coherent_catch: "slot_coherent s \<Longrightarrow> slot_coherent (sendMessage_catch m s)"
  by (erule slot_coherent_frame) (simp_all add: sendMessage_catch_def)

lemma slot_coherent_text: "slot_coherent s \<Longrightarrow> slot_coherent (on_text_response r s)"
  by (erule slot_coherent_frame) (simp_all add: on_text_response_def)

lemma slot_coherent_function_call:
  assumes "slot_coherent s"
  shows "slot_coherent (on_function_call te fc s)"
proof -
  have u: "slot_coherent (s\<lparr>messages := ms, loading := False\<rparr>)" for ms
    by (rule slot_coherent_frame [OF assms]) simp_all
  show ?thesis
    using slot_coherent_catch [OF assms] u
    by (auto simp: on_function_call_def slot_coherent_set_pending split: option.splits)
qed

lemma slot_coherent_sendMessage_resume:
  "slot_coherent s \<Longrightarrow> slot_coherent (sendMessage_resume te res s)"
  by (simp add: sendMessage_resume_def slot_coherent_catch slot_coherent_text
      slot_coherent_function_call split: OracleResult.splits option.splits list.splits)

lemma slot_coherent_toggle:
  "slot_coherent s \<Longrightarrow> slot_coherent (handleToggleTaskCompletion taskId cur s)"
  by (auto simp: handleToggleTaskCompletion_def slot_coherent_def split: option.splits)

lemma commit_keeps_slot:
  "commit env ty d s = (s1, rm, need) \<Longrightarrow>
     pendingActionDetails s1 = pendingActionDetails s \<and>
     pendingActionType s1 = pendingActionType s \<and>
     pendingFunctionCall s1 = pendingFunctionCall s"
  by (cases ty) (auto simp: Let_def)

lemma slot_coherent_confirm_begin:
  assumes "slot_coherent s" and "handleConfirm_begin env s = (s1, w)"
  shows "slot_coherent s1"
proof (cases "pendingActionDetails s")
  case None
  with assms show ?thesis by (simp add: handleConfirm_begin_def)
next
  case d: (Some d)
  show ?thesis
  proof (cases "pendingActionType s")
    case None
    with assms d show ?thesis by (simp add: handleConfirm_begin_def)
  next
    case (Some ty)
    obtain s2 rm need
      where c: "commit env ty d (s\<lparr>showConfirmationDialog := False, loading := True\<rparr>) = (s2, rm, need)"
      by (metis prod_cases3)
    have k: "slot_coherent s2"
      using commit_keeps_slot [OF c] by (intro slot_coherent_frame [OF assms(1)]) simp_all
    show ?thesis
    proof (cases "need \<and> pendingFunctionCall s \<noteq> None \<and> chatSession s")
      case True
      with assms(2) d Some c k show ?thesis by (simp add: handleConfirm_begin_def)
    next
      case False
      with assms(2) d Some c have "s1 = clear_pending s2"
        by (auto simp: handleConfirm_begin_def)
      then show ?thesis by (simp add: slot_coherent_def clear_pending_def)
    qed
  qed
qed

lemma slot_coherent_confirm_resume: "slot_coherent (handleConfirm_resume reply rm s)"
  by (simp add: handleConfirm_resume_def clear_pending_def slot_coherent_def)

lemma slot_coherent_cancel_begin:
  "handleCancel_begin s = (s1, w) \<Longrightarrow> slot_coherent s1"
  by (auto simp: handleCancel_begin_def Let_def slot_coherent_def split: if_splits)

lemma slot_coherent_cancel_resume:
  "slot_coherent s \<Longrightarrow> slot_coherent (handleCancel_resume reply s)"
  by (erule slot_coherent_frame) (simp_all add: handleCancel_resume_def split: OracleReply.splits)

lemma slot_coherent_step:
  assumes "slot_coherent (app ss)"
  shows "slot_coherent (app (step e ss))"
proof (cases e)
  case (SendMessage u)
  with assms show ?thesis
    by (auto simp: slot_coherent_sendMessage_begin split: option.splits)
next
  case (ToggleRequest taskId cur)
  with assms show ?thesis by (simp add: slot_coherent_toggle)
next
  case (ConfirmClick env)
  obtain s1 w where b: "handleConfirm_begin env (app ss) = (s1, w)" by (cases "handleConfirm_begin env (app ss)")
  with slot_coherent_confirm_begin [OF assms b] ConfirmClick show ?thesis
    by (cases w) simp_all
next
  case CancelClick
  obtain s1 w where b: "handleCancel_begin (app ss) = (s1, w)" by (cases "handleCancel_begin (app ss)")
  with slot_coherent_cancel_begin [OF b] CancelClick show ?thesis
    by (cases w) simp_all
next
  case (GenerateAnswer n te res)
  with assms show ?thesis
    by (simp add: slot_coherent_sendMessage_resume split: Call.splits)
next
  case (FollowUpAnswer n reply)
  with assms show ?thesis
    by (simp add: slot_coherent_confirm_resume slot_coherent_cancel_resume split: Call.splits)
qed

lemma slot_coherent_run: "slot_coherent (app ss) \<Longrightarrow> slot_coherent (app (run evs ss))"
  by (induction evs arbitrary: ss) (simp_all add: slot_coherent_step)

lemma resume_intent:
  assumes "functionCalls r = Some (fc # fcs)" "model_intent fc"
  shows "pendingFunctionCall (sendMessage_resume te (Responded r) s) = Some fc"
    and "pendingActionType (sendMessage_resume te (Responded r) s) \<in>
           {Some ActEvent, Some ActTask, Some ActPayment, Some ActGoal}"
  using assms
  by (auto simp: sendMessage_resume_def on_function_call_def set_pending_def model_intent_def)

lemma ex_intent_then_toggle:
  "pendingActionType (app (run [SendMessage ''Book the dentist'',
      GenerateAnswer 0 ''te'' (intent_of dentist_call)] ex_session)) = Some ActEvent"
  "pendingActionType (app (run [SendMessage ''Book the dentist'',
      GenerateAnswer 0 ''te'' (intent_of dentist_call), ToggleRequest ''1'' False] ex_session))
     = Some ConfirmTaskCompletion"
  "recurringTasks (app (run [SendMessage ''Book the dentist'',
      GenerateAnswer 0 ''te'' (intent_of dentist_call)] ex_session)) = [water_plants]"
  by (simp_all add: session_defs ex_defs handler_defs)

text \<open>An intent that arrives while a toggle awaits confirmation replaces it as well.\<close>

lemma ex_toggle_then_intent:
  "pendingActionType (app (run [ToggleRequest ''1'' False] ex_session))
     = Some ConfirmTaskCompletion"
  "pendingActionType (app (run [ToggleRequest ''1'' False, SendMessage ''Book the dentist'',
      GenerateAnswer 0 ''te'' (intent_of dentist_call)] ex_session)) = Some ActEvent"
  by (simp_all add: session_defs ex_defs handler_defs)

text \<open>
  The dialog flag is not part of the slot: when the user confirms the dentist event and
  toggles a task before the model has answered, the answer clears the three hooks and
  leaves the dialog of the toggle shown.
\<close>

lemma dialog_open_with_nothing_pending:
  "pendingActionDetails (app (run [SendMessage ''Book the dentist'',
      GenerateAnswer 0 ''te'' (intent_of dentist_call), ConfirmClick ex_env,
      ToggleRequest ''1'' False, FollowUpAnswer 0 (ReplyText (Some ''Done.''))] ex_session)) = None"
  "pendingActionType (app (run [SendMessage ''Book the dentist'',
      GenerateAnswer 0 ''te'' (intent_of dentist_call), ConfirmClick ex_env,
      ToggleRequest ''1'' False, FollowUpAnswer 0 (ReplyText (Some ''Done.''))] ex_session)) = None"
  "pendingFunctionCall (app (run [SendMessage ''Book the dentist'',
      GenerateAnswer 0 ''te'' (intent_of dentist_call), ConfirmClick ex_env,
      ToggleRequest ''1'' False, FollowUpAnswer 0 (ReplyText (Some ''Done.''))] ex_session)) = None"
  "showConfirmationDialog (app (run [SendMessage ''Book the dentist'',
      GenerateAnswer 0 ''te'' (intent_of dentist_call), ConfirmClick ex_env,
      ToggleRequest ''1'' False, FollowUpAnswer 0 (ReplyText (Some ''Done.''))] ex_session))"
  by (simp_all add: session_defs ex_defs handler_defs)

text \<open>
  C1, as the code has it. After every sequence of events from the loaded state, with the
  answers of the model arriving at any point between the user's actions, the three hooks
  of the pending action hold at most one action: they are all set, with a payload of the
  tagged kind, or all clear. No handler refuses to create a pending action while another
  is outstanding: a toggle request for an existing task puts the toggle into the slot,
  and a function call arriving from the model puts its action into the slot, whatever
  was there.
\<close>

theorem pending_slot_single:
  "slot_coherent (app (run evs (initialSession cs es ts ps gs))) \<and>
   (find (\<lambda>task. task_id task = taskId)
      (recurringTasks (app (run evs (initialSession cs es ts ps gs)))) = Some t \<longrightarrow>
    pendingActionDetails
      (handleToggleTaskCompletion taskId cur (app (run evs (initialSession cs es ts ps gs))))
      = Some (TaskDetails (t\<lparr>task_completed := \<not> cur\<rparr>)) \<and>
    pendingActionType
      (handleToggleTaskCompletion taskId cur (app (run evs (initialSession cs es ts ps gs))))
      = Some ConfirmTaskCompletion) \<and>
   (functionCalls r = Some (fc # fcs) \<and> model_intent fc \<longrightarrow>
    pendingFunctionCall
      (sendMessage_resume te (Responded r) (app (run evs (initialSession cs es ts ps gs))))
      = Some fc \<and>
    pendingActionType
      (sendMessage_resume te (Responded r) (app (run evs (initialSession cs es ts ps gs))))
      \<in> {Some ActEvent, Some ActTask, Some ActPayment, Some ActGoal})"
proof -
  let ?s = "app (run evs (initialSession cs es ts ps gs))"
  have "slot_coherent ?s"
    by (rule slot_coherent_run) (simp add: initialSession_def slot_coherent_initial)
  moreover have "pendingActionDetails (handleToggleTaskCompletion taskId cur ?s)
      = Some (TaskDetails (t\<lparr>task_completed := \<not> cur\<rparr>)) \<and>
    pendingActionType (handleToggleTaskCompletion taskId cur ?s) = Some ConfirmTaskCompletion"
    if "find (\<lambda>task. task_id task = taskId) (recurringTasks ?s) = Some t"
    using that by (simp add: toggle_found)
  moreover have "pendingFunctionCall (sendMessage_resume te (Responded r) ?s) = Some fc \<and>
    pendingActionType (sendMessage_resume te (Responded r) ?s)
      \<in> {Some ActEvent, Some ActTask, Some ActPayment, Some ActGoal}"
    if "functionCalls r = Some (fc # fcs) \<and> model_intent fc"
    using that resume_intent [of r fc fcs te ?s] by blast
  ultimately show ?thesis by blast
qed

text \<open>
  After the dentist intent has arrived in the example state, a toggle of the task with id
  1 takes over the slot, and so would a \<^verbatim>\<open>payBill\<close> call arriving from the model.
\<close>

theorem pending_slot_single_witness:
  "slot_coherent (app (run [SendMessage ''Book the dentist'',
      GenerateAnswer 0 ''te'' (intent_of dentist_call)] ex_session)) \<and>
   pendingActionDetails (handleToggleTaskCompletion ''1'' False
     (app (run [SendMessage ''Book the dentist'',
        GenerateAnswer 0 ''te'' (intent_of dentist_call)] ex_session))) =
     Some (TaskDetails (water_plants\<lparr>task_completed := True\<rparr>)) \<and>
   pendingFunctionCall (sendMessage_resume ''te'' (intent_of bill_call)
     (app (run [SendMessage ''Book the dentist'',
        GenerateAnswer 0 ''te'' (intent_of dentist_call)] ex_session))) = Some bill_call"
proof -
  have f: "find (\<lambda>task. task_id task = ''1'') [water_plants] = Some water_plants"
    by (simp add: water_plants_def)
  have m: "model_intent bill_call"
    by (simp add: model_intent_def bill_call_def)
  from pending_slot_single [where evs = "[SendMessage ''Book the dentist'',
        GenerateAnswer 0 ''te'' (intent_of dentist_call)]"
      and cs = True and es = "[]" and ts = "[water_plants]" and ps = "[]" and gs = "[]"
      and taskId = "''1''" and t = water_plants and cur = False
      and r = "\<lparr>functionCalls = Some [bill_call], resp_text = None, groundingChunks = None\<rparr>"
      and fc = bill_call and fcs = "[]" and te = "''te''"]
    ex_intent_then_toggle(3) f m
  show ?thesis
    by (simp add: ex_session_def intent_of_def)
qed

text \<open>
  The claim as stated fails: the toggle requested while the dentist event awaits
  confirmation is observable, the pending action is then the toggle and no longer the
  event.
\<close>

theorem second_action_replaces_counterexample:
  "pendingActionType
     (app (run [SendMessage ''Book the dentist'',
                GenerateAnswer 0 ''te'' (intent_of dentist_call),
                ToggleRequest ''1'' False] ex_session)) \<noteq>
   pendingActionType
     (app (run [SendMessage ''Book the dentist'',
                GenerateAnswer 0 ''te'' (intent_of dentist_call)] ex_session))"
  using ex_intent_then_toggle(1,2) by simp

end
